theory Spec2Isabelle
  imports Main "HOL-Library.Char_ord" "HOL-Library.List_Lexorder" "HOL-Library.Product_Lexorder"
begin

section \<open>HR attrition dashboard: the row loader and the aggregation views\<close>

text \<open>
  The repository holds the same dashboard twice: \<^verbatim>\<open>main.py\<close> (FastAPI handlers) and
  \<^verbatim>\<open>server.py\<close> (handlers behind a \<^verbatim>\<open>http.server\<close> request handler). Both read a CSV
  file with \<^verbatim>\<open>csv.DictReader\<close>, filter its rows and aggregate them.

  Conventions of the embedding.
  \<^item> A Python \<^verbatim>\<open>str\<close> is a HOL \<open>string\<close>, read as the UTF-8 bytes of the text. Python
    orders strings by code point, which is the lexicographic order of their UTF-8 bytes,
    so \<^verbatim>\<open>sorted\<close> on strings is \<open>sort\<close> in the order of \<open>List_Lexorder\<close> over \<open>Char_ord\<close>.
  \<^item> A row is the dictionary \<^verbatim>\<open>csv.DictReader\<close> yields for one line: a map from column
    names to cell texts. The file's content is the list of its rows, in file order; the
    functions that open the file take that list as their first argument.
  \<^item> A Python \<^verbatim>\<open>int\<close> is a HOL \<open>int\<close>.
  \<^item> Every exception of the source is a value \<open>Inl e\<close> of \<open>error + 'a\<close>.
  \<^item> Floating-point results are kept as the expression the source evaluates
    (\<open>pyfloat\<close>), so that two results are equal when the source computes them by the same
    operations on the same integers; no rounding is ever evaluated.
\<close>

subsection \<open>Exceptions\<close>

datatype error =
    KeyError string
  | ValueError string
  | IndexError
  | ZeroDivisionError
  | OverflowError

text \<open>Sequencing: the first exception ends the computation.\<close>

definition ebind :: "error + 'a \<Rightarrow> ('a \<Rightarrow> error + 'b) \<Rightarrow> error + 'b" where
  "ebind m f = (case m of Inl e \<Rightarrow> Inl e | Inr v \<Rightarrow> f v)"

text \<open>\<^verbatim>\<open>for x in xs: s = body(s, x)\<close>, stopping at the first exception.\<close>

fun efold :: "('s \<Rightarrow> 'a \<Rightarrow> error + 's) \<Rightarrow> 'a list \<Rightarrow> 's \<Rightarrow> error + 's" where
  "efold f [] s = Inr s"
| "efold f (x # xs) s = (case f s x of Inl e \<Rightarrow> Inl e | Inr s' \<Rightarrow> efold f xs s')"

text \<open>\<^verbatim>\<open>[g(x) for x in xs]\<close> and \<^verbatim>\<open>sum(g(x) for x in xs)\<close> evaluate \<open>g\<close> left to right.\<close>

fun emap :: "('a \<Rightarrow> error + 'b) \<Rightarrow> 'a list \<Rightarrow> error + 'b list" where
  "emap g [] = Inr []"
| "emap g (x # xs) =
     (case g x of Inl e \<Rightarrow> Inl e
      | Inr y \<Rightarrow> (case emap g xs of Inl e \<Rightarrow> Inl e | Inr ys \<Rightarrow> Inr (y # ys)))"

subsection \<open>Rows and \<^verbatim>\<open>int()\<close>\<close>

type_synonym row = "string \<rightharpoonup> string"

text \<open>\<^verbatim>\<open>d[k]\<close> on a dictionary with string keys: a missing key raises \<^verbatim>\<open>KeyError\<close>.\<close>

definition getitem :: "(string \<rightharpoonup> 'v) \<Rightarrow> string \<Rightarrow> error + 'v" where
  "getitem r k = (case r k of None \<Rightarrow> Inl (KeyError k) | Some v \<Rightarrow> Inr v)"

text \<open>
  \<^verbatim>\<open>int(s)\<close> for a string, base 10: surrounding whitespace is dropped, then an optional
  sign, then decimal digits, where single underscores may stand between digits. Anything
  else raises \<^verbatim>\<open>ValueError\<close>. The model covers ASCII text (the digits and whitespace of
  other scripts that \<^verbatim>\<open>int\<close> also accepts are not modelled), and no limit on the
  number of digits.
\<close>

definition is_space :: "char \<Rightarrow> bool" where
  "is_space c = (c = CHR '' '' \<or> c = CHR 0x09 \<or> c = CHR 0x0A \<or> c = CHR 0x0B
     \<or> c = CHR 0x0C \<or> c = CHR 0x0D)"

definition is_digit :: "char \<Rightarrow> bool" where
  "is_digit c = (CHR ''0'' \<le> c \<and> c \<le> CHR ''9'')"

definition digit_val :: "char \<Rightarrow> nat" where
  "digit_val c = of_char c - 48"

fun digits_acc :: "nat \<Rightarrow> string \<Rightarrow> nat option" where
  "digits_acc acc [] = Some acc"
| "digits_acc acc (c # cs) =
     (if is_digit c then digits_acc (10 * acc + digit_val c) cs
      else if c = CHR ''_'' then
        (case cs of
           [] \<Rightarrow> None
         | d # ds \<Rightarrow> if is_digit d then digits_acc (10 * acc + digit_val d) ds else None)
      else None)"

definition digits :: "string \<Rightarrow> nat option" where
  "digits s = (case s of [] \<Rightarrow> None
     | c # cs \<Rightarrow> if is_digit c then digits_acc (digit_val c) cs else None)"

definition strip :: "string \<Rightarrow> string" where
  "strip s = rev (dropWhile is_space (rev (dropWhile is_space s)))"

definition py_int :: "string \<Rightarrow> error + int" where
  "py_int s =
     (case strip s of
        [] \<Rightarrow> Inl (ValueError s)
      | c # cs \<Rightarrow>
          if c = CHR ''-'' then
            (case digits cs of None \<Rightarrow> Inl (ValueError s) | Some n \<Rightarrow> Inr (- int n))
          else if c = CHR ''+'' then
            (case digits cs of None \<Rightarrow> Inl (ValueError s) | Some n \<Rightarrow> Inr (int n))
          else
            (case digits (c # cs) of None \<Rightarrow> Inl (ValueError s) | Some n \<Rightarrow> Inr (int n)))"

text \<open>\<^verbatim>\<open>int(r[k])\<close>.\<close>

definition int_field :: "row \<Rightarrow> string \<Rightarrow> error + int" where
  "int_field r k = ebind (getitem r k) py_int"

subsection \<open>The row loader\<close>

text \<open>
  \<^verbatim>\<open>if gender and row["Gender"] != gender: continue\<close>. The test \<^verbatim>\<open>gender and ...\<close> is
  Python truthiness: \<^verbatim>\<open>None\<close> and the empty string are both false, and then the row's
  field is not read at all.
\<close>

definition truthy :: "string option \<Rightarrow> bool" where
  "truthy a = (case a of None \<Rightarrow> False | Some s \<Rightarrow> s \<noteq> [])"

text \<open>
  \<open>skips a k row\<close> is the condition of one of the four \<^verbatim>\<open>if ...: continue\<close> lines:
  \<open>Inr True\<close> when the row is skipped.
\<close>

definition skips :: "string option \<Rightarrow> string \<Rightarrow> row \<Rightarrow> error + bool" where
  "skips a k row =
     (if truthy a then ebind (getitem row k) (\<lambda>v. Inr (Some v \<noteq> a)) else Inr False)"

definition load_step ::
  "string option \<Rightarrow> string option \<Rightarrow> string option \<Rightarrow> string option \<Rightarrow>
   row list \<Rightarrow> row \<Rightarrow> error + row list" where
  "load_step gender job_role education department rows row =
     ebind (skips gender ''Gender'' row) (\<lambda>s1.
       if s1 then Inr rows else
     ebind (skips job_role ''JobRole'' row) (\<lambda>s2.
       if s2 then Inr rows else
     ebind (skips education ''Education'' row) (\<lambda>s3.
       if s3 then Inr rows else
     ebind (skips department ''Department'' row) (\<lambda>s4.
       if s4 then Inr rows else
     Inr (rows @ [row])))))"

text \<open>\<^verbatim>\<open>main.load_data\<close>; the first argument is the content of the file.\<close>

definition load_data ::
  "row list \<Rightarrow> string option \<Rightarrow> string option \<Rightarrow> string option \<Rightarrow> string option \<Rightarrow>
   error + row list" where
  "load_data file gender job_role education department =
     efold (load_step gender job_role education department) file []"

text \<open>\<^verbatim>\<open>server.load_data\<close>, called as \<^verbatim>\<open>load_data(**p)\<close> with the dictionary of
  \<^verbatim>\<open>get_params\<close>.\<close>

record params =
  p_gender :: "string option"
  p_job_role :: "string option"
  p_education :: "string option"
  p_department :: "string option"

definition srv_load_step ::
  "string option \<Rightarrow> string option \<Rightarrow> string option \<Rightarrow> string option \<Rightarrow>
   row list \<Rightarrow> row \<Rightarrow> error + row list" where
  "srv_load_step gender job_role education department rows row =
     ebind (skips gender ''Gender'' row) (\<lambda>s1.
       if s1 then Inr rows else
     ebind (skips job_role ''JobRole'' row) (\<lambda>s2.
       if s2 then Inr rows else
     ebind (skips education ''Education'' row) (\<lambda>s3.
       if s3 then Inr rows else
     ebind (skips department ''Department'' row) (\<lambda>s4.
       if s4 then Inr rows else
     Inr (rows @ [row])))))"

definition srv_load_data ::
  "row list \<Rightarrow> string option \<Rightarrow> string option \<Rightarrow> string option \<Rightarrow> string option \<Rightarrow>
   error + row list" where
  "srv_load_data file gender job_role education department =
     efold (srv_load_step gender job_role education department) file []"

definition srv_load :: "row list \<Rightarrow> params \<Rightarrow> error + row list" where
  "srv_load file p = srv_load_data file (p_gender p) (p_job_role p) (p_education p) (p_department p)"

subsection \<open>Numbers of a response\<close>

text \<open>
  A float is the expression that produced it: \<open>TrueDiv a b\<close> is \<^verbatim>\<open>a / b\<close> on two ints,
  \<open>Times x n\<close> is \<^verbatim>\<open>x * n\<close>, \<open>RoundTo x n\<close> is \<^verbatim>\<open>round(x, n)\<close>. A number of a response is
  an int, a float, or \<^verbatim>\<open>round(x)\<close> (one argument), which is the int nearest to the float.
\<close>

datatype pyfloat = TrueDiv int int | Times pyfloat int | RoundTo pyfloat int

datatype pynum = PInt int | PFloat pyfloat | PRound pyfloat

text \<open>
  \<^verbatim>\<open>a / b\<close> on ints raises \<^verbatim>\<open>ZeroDivisionError\<close> for \<open>b = 0\<close>, and \<^verbatim>\<open>OverflowError\<close> when the
  correctly rounded quotient is no double, that is when \<open>\<bar>a / b\<bar> \<ge> 2^1024 - 2^970\<close>.
\<close>

definition float_overflow_bound :: int where
  "float_overflow_bound = 2 ^ 1024 - 2 ^ 970"

definition truediv :: "int \<Rightarrow> int \<Rightarrow> error + pyfloat" where
  "truediv a b =
     (if b = 0 then Inl ZeroDivisionError
      else if float_overflow_bound * \<bar>b\<bar> \<le> \<bar>a\<bar> then Inl OverflowError
      else Inr (TrueDiv a b))"

text \<open>\<^verbatim>\<open>round(a / t * 100, 1) if t else 0\<close>, the rate of every view that has one.\<close>

definition rate_of :: "int \<Rightarrow> int \<Rightarrow> error + pynum" where
  "rate_of a t =
     (if t \<noteq> 0 then ebind (truediv a t) (\<lambda>q. Inr (PFloat (RoundTo (Times q 100) 1)))
      else Inr (PInt 0))"

subsection \<open>\<^verbatim>\<open>collections.Counter\<close>, lists and ranges\<close>

text \<open>
  A \<^verbatim>\<open>Counter\<close> is a dictionary, kept as an association list in insertion order with
  distinct keys. \<open>counter_inc c k\<close> is \<^verbatim>\<open>c[k] += 1\<close>; \<open>counter_get c k\<close> is \<^verbatim>\<open>c[k]\<close>, which is
  0 for a missing key and does not insert it; \<open>counter_keys c\<close> is \<^verbatim>\<open>c.keys()\<close>.
\<close>

type_synonym 'k counter = "('k \<times> int) list"

fun counter_inc :: "'k counter \<Rightarrow> 'k \<Rightarrow> 'k counter" where
  "counter_inc [] k = [(k, 1)]"
| "counter_inc ((k', n) # c) k =
     (if k' = k then (k', n + 1) # c else (k', n) # counter_inc c k)"

definition counter_get :: "'k counter \<Rightarrow> 'k \<Rightarrow> int" where
  "counter_get c k = (case map_of c k of None \<Rightarrow> 0 | Some n \<Rightarrow> n)"

definition counter_keys :: "'k counter \<Rightarrow> 'k list" where
  "counter_keys c = map fst c"

text \<open>
  \<^verbatim>\<open>xs[i] += 1\<close> on a list: a negative index counts from the end, an index outside
  \<open>-len \<le> i < len\<close> raises \<^verbatim>\<open>IndexError\<close>.
\<close>

definition list_inc :: "int list \<Rightarrow> int \<Rightarrow> error + int list" where
  "list_inc xs i =
     (let n = int (length xs); j = (if i < 0 then i + n else i)
      in if 0 \<le> j \<and> j < n then Inr (xs[nat j := xs ! nat j + 1]) else Inl IndexError)"

text \<open>\<^verbatim>\<open>list(range(start, stop, step))\<close> for a positive step.\<close>

definition range_step :: "int \<Rightarrow> int \<Rightarrow> int \<Rightarrow> int list" where
  "range_step start stop step =
     map (\<lambda>i. start + step * int i) [0 ..< nat ((stop - start + step - 1) div step)]"

text \<open>\<^verbatim>\<open>list(range(0, stop))\<close>.\<close>

definition range0 :: "int \<Rightarrow> int list" where
  "range0 stop = [0 .. stop - 1]"

text \<open>\<^verbatim>\<open>str(i)\<close> of an int, as an f-string formats it.\<close>

fun digits_of :: "nat \<Rightarrow> string" where
  "digits_of n =
     (if n < 10 then [char_of (48 + n)]
      else digits_of (n div 10) @ [char_of (48 + n mod 10)])"

declare digits_of.simps [simp del]

definition py_str :: "int \<Rightarrow> string" where
  "py_str i = (if i < 0 then CHR ''-'' # digits_of (nat (- i)) else digits_of (nat i))"

subsection \<open>The results of the views\<close>

record filters_result =
  f_genders :: "string list"
  f_job_roles :: "string list"
  f_educations :: "(string \<times> string) list"
  f_departments :: "string list"

record kpis_result =
  k_total :: int
  k_attrition_rate :: pynum
  k_avg_age :: pynum
  k_avg_income :: pynum
  k_avg_satisfaction :: pynum

record rate_result =
  r_labels :: "string list"
  r_total :: "int list"
  r_attrition :: "int list"
  r_rate :: "pynum list"

record count_result =
  c_labels :: "string list"
  c_total :: "int list"
  c_attrition :: "int list"

record income_result =
  i_labels :: "string list"
  i_avg_income :: "pynum list"

record split_result =
  s_labels :: "string list"
  s_stayed :: "int list"
  s_left :: "int list"

record years_result =
  y_labels :: "int list"
  y_attrition_rate :: "pynum list"
  y_total :: "int list"

record worklife_result =
  w_labels :: "string list"
  w_stayed :: "pynum list"
  w_left :: "pynum list"

subsection \<open>The views of \<^verbatim>\<open>main.py\<close>\<close>

definition EDUCATION_MAP :: "(string \<times> string) list" where
  "EDUCATION_MAP = [(''1'', ''Below College''), (''2'', ''College''), (''3'', ''Bachelor''),
     (''4'', ''Master''), (''5'', ''Doctor'')]"

text \<open>\<^verbatim>\<open>sorted(set(r[k] for r in rows))\<close>.\<close>

definition sorted_set :: "row list \<Rightarrow> string \<Rightarrow> error + string list" where
  "sorted_set rows k = ebind (emap (\<lambda>r. getitem r k) rows) (\<lambda>vs. Inr (sort (remdups vs)))"

definition get_filters :: "row list \<Rightarrow> error + filters_result" where
  "get_filters file =
     ebind (load_data file None None None None) (\<lambda>rows.
     ebind (sorted_set rows ''Gender'') (\<lambda>genders.
     ebind (sorted_set rows ''JobRole'') (\<lambda>job_roles.
     ebind (sorted_set rows ''Department'') (\<lambda>departments.
     Inr \<lparr>f_genders = genders, f_job_roles = job_roles,
          f_educations = sort_key fst EDUCATION_MAP,
          f_departments = departments\<rparr>))))"

text \<open>\<^verbatim>\<open>sum(1 for r in rows if r["Attrition"] == "Yes")\<close>.\<close>

definition count_yes :: "row list \<Rightarrow> error + int" where
  "count_yes rows =
     efold (\<lambda>n r. ebind (getitem r ''Attrition'') (\<lambda>a. Inr (if a = ''Yes'' then n + 1 else n)))
       rows 0"

text \<open>\<^verbatim>\<open>sum(int(r[k]) for r in rows)\<close>.\<close>

definition sum_field :: "row list \<Rightarrow> string \<Rightarrow> error + int" where
  "sum_field rows k = ebind (emap (\<lambda>r. int_field r k) rows) (\<lambda>vs. Inr (sum_list vs))"

definition kpis_empty :: kpis_result where
  "kpis_empty = \<lparr>k_total = 0, k_attrition_rate = PInt 0, k_avg_age = PInt 0,
     k_avg_income = PInt 0, k_avg_satisfaction = PInt 0\<rparr>"

definition get_kpis ::
  "row list \<Rightarrow> string option \<Rightarrow> string option \<Rightarrow> string option \<Rightarrow> string option \<Rightarrow>
   error + kpis_result" where
  "get_kpis file gender job_role education department =
     ebind (load_data file gender job_role education department) (\<lambda>rows.
     let total = int (length rows) in
     if total = 0 then Inr kpis_empty else
     ebind (count_yes rows) (\<lambda>attrition.
     ebind (ebind (sum_field rows ''Age'') (\<lambda>s. truediv s total)) (\<lambda>avg_age.
     ebind (ebind (sum_field rows ''MonthlyIncome'') (\<lambda>s. truediv s total)) (\<lambda>avg_income.
     ebind (ebind (sum_field rows ''JobSatisfaction'') (\<lambda>s. truediv s total)) (\<lambda>avg_sat.
     ebind (truediv attrition total) (\<lambda>q.
     Inr \<lparr>k_total = total,
          k_attrition_rate = PFloat (RoundTo (Times q 100) 1),
          k_avg_age = PFloat (RoundTo avg_age 1),
          k_avg_income = PRound avg_income,
          k_avg_satisfaction = PFloat (RoundTo avg_sat 2)\<rparr>))))))"

text \<open>
  The loop of the two category views: \<^verbatim>\<open>total[r[k]] += 1\<close>, and \<^verbatim>\<open>attr[r[k]] += 1\<close> when
  \<^verbatim>\<open>r["Attrition"] == "Yes"\<close>.
\<close>

definition attrition_by_department ::
  "row list \<Rightarrow> string option \<Rightarrow> string option \<Rightarrow> string option \<Rightarrow> string option \<Rightarrow>
   error + rate_result" where
  "attrition_by_department file gender job_role education department =
     ebind (load_data file gender job_role education department) (\<lambda>rows.
     ebind (efold (\<lambda>(dept_total, dept_attr) r.
              ebind (getitem r ''Department'') (\<lambda>d.
              ebind (getitem r ''Attrition'') (\<lambda>a.
              Inr (counter_inc dept_total d,
                   if a = ''Yes'' then counter_inc dept_attr d else dept_attr))))
            rows ([], [])) (\<lambda>(dept_total, dept_attr).
     let labels = sort (counter_keys dept_total) in
     ebind (emap (\<lambda>l. rate_of (counter_get dept_attr l) (counter_get dept_total l)) labels)
       (\<lambda>rate.
     Inr \<lparr>r_labels = labels,
          r_total = map (counter_get dept_total) labels,
          r_attrition = map (counter_get dept_attr) labels,
          r_rate = rate\<rparr>)))"

definition attrition_by_jobrole ::
  "row list \<Rightarrow> string option \<Rightarrow> string option \<Rightarrow> string option \<Rightarrow> string option \<Rightarrow>
   error + rate_result" where
  "attrition_by_jobrole file gender job_role education department =
     ebind (load_data file gender job_role education department) (\<lambda>rows.
     ebind (efold (\<lambda>(role_total, role_attr) r.
              ebind (getitem r ''JobRole'') (\<lambda>d.
              ebind (getitem r ''Attrition'') (\<lambda>a.
              Inr (counter_inc role_total d,
                   if a = ''Yes'' then counter_inc role_attr d else role_attr))))
            rows ([], [])) (\<lambda>(role_total, role_attr).
     let labels = sort (counter_keys role_total) in
     ebind (emap (\<lambda>l. rate_of (counter_get role_attr l) (counter_get role_total l)) labels)
       (\<lambda>rate.
     Inr \<lparr>r_labels = labels,
          r_total = map (counter_get role_total) labels,
          r_attrition = map (counter_get role_attr) labels,
          r_rate = rate\<rparr>)))"

text \<open>
  The age histogram. \<^verbatim>\<open>bins = list(range(18, 65, 5))\<close>; a row is counted when
  \<^verbatim>\<open>idx = min((age - 18) // 5, len(bins) - 1)\<close> satisfies \<^verbatim>\<open>0 <= idx < len(bins)\<close>, and
  only then is its \<^verbatim>\<open>Attrition\<close> read.
\<close>

definition bins :: "int list" where
  "bins = range_step 18 65 5"

definition age_step :: "int list \<times> int list \<Rightarrow> row \<Rightarrow> error + int list \<times> int list" where
  "age_step = (\<lambda>(total_counts, attr_counts) r.
     ebind (int_field r ''Age'') (\<lambda>age.
     let idx = min ((age - 18) div 5) (int (length bins) - 1) in
     if 0 \<le> idx \<and> idx < int (length bins) then
       ebind (list_inc total_counts idx) (\<lambda>total_counts'.
       ebind (getitem r ''Attrition'') (\<lambda>a.
       if a = ''Yes'' then
         ebind (list_inc attr_counts idx) (\<lambda>attr_counts'. Inr (total_counts', attr_counts'))
       else Inr (total_counts', attr_counts)))
     else Inr (total_counts, attr_counts)))"

definition age_distribution ::
  "row list \<Rightarrow> string option \<Rightarrow> string option \<Rightarrow> string option \<Rightarrow> string option \<Rightarrow>
   error + count_result" where
  "age_distribution file gender job_role education department =
     ebind (load_data file gender job_role education department) (\<lambda>rows.
     let labels = map (\<lambda>b. py_str b @ ''-'' @ py_str (b + 4)) bins in
     ebind (efold age_step rows
             (replicate (length bins) 0, replicate (length bins) 0))
       (\<lambda>(total_counts, attr_counts).
     Inr \<lparr>c_labels = labels, c_total = total_counts, c_attrition = attr_counts\<rparr>))"

text \<open>
  \<^verbatim>\<open>Counter(r[k] for r in rows)\<close> and
  \<^verbatim>\<open>Counter(r[k] for r in rows if r["Attrition"] == "Yes")\<close>.
\<close>

definition counter_of :: "row list \<Rightarrow> string \<Rightarrow> error + string counter" where
  "counter_of rows k =
     efold (\<lambda>c r. ebind (getitem r k) (\<lambda>v. Inr (counter_inc c v))) rows []"

definition counter_of_yes :: "row list \<Rightarrow> string \<Rightarrow> error + string counter" where
  "counter_of_yes rows k =
     efold (\<lambda>c r. ebind (getitem r ''Attrition'') (\<lambda>a.
              if a = ''Yes'' then ebind (getitem r k) (\<lambda>v. Inr (counter_inc c v))
              else Inr c)) rows []"

definition gender_split ::
  "row list \<Rightarrow> string option \<Rightarrow> string option \<Rightarrow> string option \<Rightarrow> string option \<Rightarrow>
   error + count_result" where
  "gender_split file gender job_role education department =
     ebind (load_data file gender job_role education department) (\<lambda>rows.
     ebind (counter_of rows ''Gender'') (\<lambda>cnt.
     ebind (counter_of_yes rows ''Gender'') (\<lambda>attr_cnt.
     let labels = sort (counter_keys cnt) in
     Inr \<lparr>c_labels = labels,
          c_total = map (counter_get cnt) labels,
          c_attrition = map (counter_get attr_cnt) labels\<rparr>)))"

text \<open>
  \<^verbatim>\<open>role_income = defaultdict(list)\<close>: an association list of lists in insertion order;
  \<open>dd_append c k v\<close> is \<^verbatim>\<open>c[k].append(v)\<close> and \<open>dd_get c k\<close> is \<^verbatim>\<open>c[k]\<close>, the empty list for
  a missing key.
\<close>

fun dd_append :: "(string \<times> int list) list \<Rightarrow> string \<Rightarrow> int \<Rightarrow> (string \<times> int list) list" where
  "dd_append [] k v = [(k, [v])]"
| "dd_append ((k', xs) # c) k v =
     (if k' = k then (k', xs @ [v]) # c else (k', xs) # dd_append c k v)"

definition dd_get :: "(string \<times> int list) list \<Rightarrow> string \<Rightarrow> int list" where
  "dd_get c k = (case map_of c k of None \<Rightarrow> [] | Some xs \<Rightarrow> xs)"

definition income_by_role ::
  "row list \<Rightarrow> string option \<Rightarrow> string option \<Rightarrow> string option \<Rightarrow> string option \<Rightarrow>
   error + income_result" where
  "income_by_role file gender job_role education department =
     ebind (load_data file gender job_role education department) (\<lambda>rows.
     ebind (efold (\<lambda>role_income r.
              ebind (getitem r ''JobRole'') (\<lambda>k.
              ebind (int_field r ''MonthlyIncome'') (\<lambda>v.
              Inr (dd_append role_income k v))))
            rows []) (\<lambda>role_income.
     let labels = sort (map fst role_income) in
     ebind (emap (\<lambda>l.
              if dd_get role_income l \<noteq> [] then
                ebind (truediv (sum_list (dd_get role_income l))
                         (int (length (dd_get role_income l))))
                  (\<lambda>q. Inr (PRound q))
              else Inr (PInt 0)) labels) (\<lambda>avg_income.
     Inr \<lparr>i_labels = labels, i_avg_income = avg_income\<rparr>)))"

text \<open>
  The satisfaction histogram: \<^verbatim>\<open>idx = int(r["JobSatisfaction"]) - 1\<close> indexes two lists
  of four counters with no range check of its own.
\<close>

definition sat_step :: "int list \<times> int list \<Rightarrow> row \<Rightarrow> error + int list \<times> int list" where
  "sat_step = (\<lambda>(stayed, left) r.
     ebind (int_field r ''JobSatisfaction'') (\<lambda>v.
     let idx = v - 1 in
     ebind (getitem r ''Attrition'') (\<lambda>a.
     if a = ''Yes'' then ebind (list_inc left idx) (\<lambda>left'. Inr (stayed, left'))
     else ebind (list_inc stayed idx) (\<lambda>stayed'. Inr (stayed', left)))))"

definition satisfaction_distribution ::
  "row list \<Rightarrow> string option \<Rightarrow> string option \<Rightarrow> string option \<Rightarrow> string option \<Rightarrow>
   error + split_result" where
  "satisfaction_distribution file gender job_role education department =
     ebind (load_data file gender job_role education department) (\<lambda>rows.
     let sat_labels = [''1 - Low'', ''2 - Medium'', ''3 - High'', ''4 - Very High''] in
     ebind (efold sat_step rows ([0, 0, 0, 0], [0, 0, 0, 0])) (\<lambda>(stayed, left).
     Inr \<lparr>s_labels = sat_labels, s_stayed = stayed, s_left = left\<rparr>))"

text \<open>
  Overtime against attrition: \<^verbatim>\<open>data[r["OverTime"]][r["Attrition"]] += 1\<close> on a dictionary
  of dictionaries with the keys \<^verbatim>\<open>"Yes"\<close> and \<^verbatim>\<open>"No"\<close>; any other value is a \<^verbatim>\<open>KeyError\<close>.
\<close>

definition overtime_data0 :: "string \<rightharpoonup> (string \<rightharpoonup> int)" where
  "overtime_data0 = [''Yes'' \<mapsto> [''Yes'' \<mapsto> 0, ''No'' \<mapsto> 0], ''No'' \<mapsto> [''Yes'' \<mapsto> 0, ''No'' \<mapsto> 0]]"

definition overtime_step ::
  "(string \<rightharpoonup> (string \<rightharpoonup> int)) \<Rightarrow> row \<Rightarrow> error + (string \<rightharpoonup> (string \<rightharpoonup> int))" where
  "overtime_step data r =
     ebind (getitem r ''OverTime'') (\<lambda>ot.
     ebind (getitem data ot) (\<lambda>inner.
     ebind (getitem r ''Attrition'') (\<lambda>a.
     ebind (getitem inner a) (\<lambda>n.
     Inr (data(ot \<mapsto> inner(a \<mapsto> n + 1)))))))"

text \<open>\<^verbatim>\<open>data[a][b]\<close>.\<close>

definition getitem2 :: "(string \<rightharpoonup> (string \<rightharpoonup> int)) \<Rightarrow> string \<Rightarrow> string \<Rightarrow> error + int" where
  "getitem2 data a b = ebind (getitem data a) (\<lambda>inner. getitem inner b)"

definition overtime_attrition ::
  "row list \<Rightarrow> string option \<Rightarrow> string option \<Rightarrow> string option \<Rightarrow> string option \<Rightarrow>
   error + split_result" where
  "overtime_attrition file gender job_role education department =
     ebind (load_data file gender job_role education department) (\<lambda>rows.
     ebind (efold overtime_step rows overtime_data0) (\<lambda>data.
     ebind (getitem2 data ''Yes'' ''No'') (\<lambda>yn.
     ebind (getitem2 data ''No'' ''No'') (\<lambda>nn.
     ebind (getitem2 data ''Yes'' ''Yes'') (\<lambda>yy.
     ebind (getitem2 data ''No'' ''Yes'') (\<lambda>ny.
     Inr \<lparr>s_labels = [''With Overtime'', ''Without Overtime''],
          s_stayed = [yn, nn], s_left = [yy, ny]\<rparr>))))))"

definition education_field ::
  "row list \<Rightarrow> string option \<Rightarrow> string option \<Rightarrow> string option \<Rightarrow> string option \<Rightarrow>
   error + count_result" where
  "education_field file gender job_role education department =
     ebind (load_data file gender job_role education department) (\<lambda>rows.
     ebind (counter_of rows ''EducationField'') (\<lambda>cnt.
     ebind (counter_of_yes rows ''EducationField'') (\<lambda>attr.
     let labels = sort (counter_keys cnt) in
     Inr \<lparr>c_labels = labels,
          c_total = map (counter_get cnt) labels,
          c_attrition = map (counter_get attr) labels\<rparr>)))"

text \<open>
  Years at company: the counters are keyed by \<^verbatim>\<open>int(r["YearsAtCompany"])\<close>, the labels are
  \<^verbatim>\<open>list(range(0, min(max_year + 1, 41)))\<close> with \<^verbatim>\<open>max_year = max(keys) if keys else 0\<close>.
\<close>

definition years_step :: "int counter \<times> int counter \<Rightarrow> row \<Rightarrow> error + int counter \<times> int counter" where
  "years_step = (\<lambda>(year_total, year_attr) r.
     ebind (int_field r ''YearsAtCompany'') (\<lambda>y.
     ebind (getitem r ''Attrition'') (\<lambda>a.
     Inr (counter_inc year_total y,
          if a = ''Yes'' then counter_inc year_attr y else year_attr))))"

definition years_attrition ::
  "row list \<Rightarrow> string option \<Rightarrow> string option \<Rightarrow> string option \<Rightarrow> string option \<Rightarrow>
   error + years_result" where
  "years_attrition file gender job_role education department =
     ebind (load_data file gender job_role education department) (\<lambda>rows.
     ebind (efold years_step rows ([], [])) (\<lambda>(year_total, year_attr).
     let max_year = (if year_total \<noteq> [] then Max (set (counter_keys year_total)) else 0);
         labels = range0 (min (max_year + 1) 41) in
     ebind (emap (\<lambda>y. rate_of (counter_get year_attr y) (counter_get year_total y)) labels)
       (\<lambda>rates.
     let totals = map (counter_get year_total) labels in
     Inr \<lparr>y_labels = labels, y_attrition_rate = rates, y_total = totals\<rparr>)))"

text \<open>
  Work-life balance: for each of five metrics, the mean over the rows whose \<^verbatim>\<open>Attrition\<close>
  is exactly \<^verbatim>\<open>"No"\<close> and over those where it is exactly \<^verbatim>\<open>"Yes"\<close>. The comprehension
  \<^verbatim>\<open>[int(r[m]) for r in rows if r["Attrition"] == v]\<close> parses only the rows it selects.
\<close>

definition metric_values :: "row list \<Rightarrow> string \<Rightarrow> string \<Rightarrow> error + int list" where
  "metric_values rows m v =
     efold (\<lambda>acc r. ebind (getitem r ''Attrition'') (\<lambda>a.
              if a = v then ebind (int_field r m) (\<lambda>x. Inr (acc @ [x])) else Inr acc))
       rows []"

text \<open>\<^verbatim>\<open>round(sum(xs) / len(xs), 2) if xs else 0\<close>.\<close>

definition mean2 :: "int list \<Rightarrow> error + pynum" where
  "mean2 xs =
     (if xs \<noteq> [] then
        ebind (truediv (sum_list xs) (int (length xs))) (\<lambda>q. Inr (PFloat (RoundTo q 2)))
      else Inr (PInt 0))"

definition metrics :: "string list" where
  "metrics = [''JobSatisfaction'', ''EnvironmentSatisfaction'', ''RelationshipSatisfaction'',
     ''WorkLifeBalance'', ''JobInvolvement'']"

definition worklife_step ::
  "row list \<Rightarrow> pynum list \<times> pynum list \<Rightarrow> string \<Rightarrow> error + pynum list \<times> pynum list" where
  "worklife_step rows = (\<lambda>(stayed_avgs, left_avgs) m.
     ebind (metric_values rows m ''No'') (\<lambda>stayed.
     ebind (metric_values rows m ''Yes'') (\<lambda>left.
     ebind (mean2 stayed) (\<lambda>sa.
     ebind (mean2 left) (\<lambda>la.
     Inr (stayed_avgs @ [sa], left_avgs @ [la]))))))"

definition worklife_labels :: "string list" where
  "worklife_labels = [''Job Satisfaction'', ''Environment'', ''Relationships'',
     ''Work-Life Balance'', ''Job Involvement'']"

definition worklife_balance ::
  "row list \<Rightarrow> string option \<Rightarrow> string option \<Rightarrow> string option \<Rightarrow> string option \<Rightarrow>
   error + worklife_result" where
  "worklife_balance file gender job_role education department =
     ebind (load_data file gender job_role education department) (\<lambda>rows.
     ebind (efold (worklife_step rows) metrics ([], [])) (\<lambda>(stayed_avgs, left_avgs).
     Inr \<lparr>w_labels = worklife_labels, w_stayed = stayed_avgs, w_left = left_avgs\<rparr>))"

subsection \<open>The handlers of \<^verbatim>\<open>server.py\<close>\<close>

text \<open>
  Each handler takes the dictionary \<open>p\<close> of \<^verbatim>\<open>get_params\<close> and starts with
  \<^verbatim>\<open>rows = load_data(**p)\<close>.
\<close>

definition api_filters :: "row list \<Rightarrow> error + filters_result" where
  "api_filters file =
     ebind (srv_load_data file None None None None) (\<lambda>rows.
     ebind (sorted_set rows ''Gender'') (\<lambda>genders.
     ebind (sorted_set rows ''JobRole'') (\<lambda>job_roles.
     ebind (sorted_set rows ''Department'') (\<lambda>departments.
     Inr \<lparr>f_genders = genders, f_job_roles = job_roles,
          f_educations = sort EDUCATION_MAP,
          f_departments = departments\<rparr>))))"

definition api_kpis :: "row list \<Rightarrow> params \<Rightarrow> error + kpis_result" where
  "api_kpis file p =
     ebind (srv_load file p) (\<lambda>rows.
     let total = int (length rows) in
     if total = 0 then
       Inr \<lparr>k_total = 0, k_attrition_rate = PInt 0, k_avg_age = PInt 0,
            k_avg_income = PInt 0, k_avg_satisfaction = PInt 0\<rparr>
     else
     ebind (count_yes rows) (\<lambda>attr.
     ebind (truediv attr total) (\<lambda>q.
     ebind (ebind (sum_field rows ''Age'') (\<lambda>s. truediv s total)) (\<lambda>age.
     ebind (ebind (sum_field rows ''MonthlyIncome'') (\<lambda>s. truediv s total)) (\<lambda>income.
     ebind (ebind (sum_field rows ''JobSatisfaction'') (\<lambda>s. truediv s total)) (\<lambda>sat.
     Inr \<lparr>k_total = total,
          k_attrition_rate = PFloat (RoundTo (Times q 100) 1),
          k_avg_age = PFloat (RoundTo age 1),
          k_avg_income = PRound income,
          k_avg_satisfaction = PFloat (RoundTo sat 2)\<rparr>))))))"

definition api_attrition_dept :: "row list \<Rightarrow> params \<Rightarrow> error + rate_result" where
  "api_attrition_dept file p =
     ebind (srv_load file p) (\<lambda>rows.
     ebind (efold (\<lambda>(total, attr) r.
              ebind (getitem r ''Department'') (\<lambda>k.
              ebind (getitem r ''Attrition'') (\<lambda>a.
              Inr (counter_inc total k, if a = ''Yes'' then counter_inc attr k else attr))))
            rows ([], [])) (\<lambda>(total, attr).
     let labels = sort (counter_keys total) in
     ebind (emap (\<lambda>l. rate_of (counter_get attr l) (counter_get total l)) labels) (\<lambda>rate.
     Inr \<lparr>r_labels = labels, r_total = map (counter_get total) labels,
          r_attrition = map (counter_get attr) labels, r_rate = rate\<rparr>)))"

definition api_attrition_jobrole :: "row list \<Rightarrow> params \<Rightarrow> error + rate_result" where
  "api_attrition_jobrole file p =
     ebind (srv_load file p) (\<lambda>rows.
     ebind (efold (\<lambda>(total, attr) r.
              ebind (getitem r ''JobRole'') (\<lambda>k.
              ebind (getitem r ''Attrition'') (\<lambda>a.
              Inr (counter_inc total k, if a = ''Yes'' then counter_inc attr k else attr))))
            rows ([], [])) (\<lambda>(total, attr).
     let labels = sort (counter_keys total) in
     ebind (emap (\<lambda>l. rate_of (counter_get attr l) (counter_get total l)) labels) (\<lambda>rate.
     Inr \<lparr>r_labels = labels, r_total = map (counter_get total) labels,
          r_attrition = map (counter_get attr) labels, r_rate = rate\<rparr>)))"

definition api_age_dist :: "row list \<Rightarrow> params \<Rightarrow> error + count_result" where
  "api_age_dist file p =
     ebind (srv_load file p) (\<lambda>rows.
     let bins = range_step 18 65 5;
         labels = map (\<lambda>b. py_str b @ ''-'' @ py_str (b + 4)) bins in
     ebind (efold (\<lambda>(tc, ac) r.
              ebind (int_field r ''Age'') (\<lambda>age.
              let idx = min ((age - 18) div 5) (int (length bins) - 1) in
              if 0 \<le> idx \<and> idx < int (length bins) then
                ebind (list_inc tc idx) (\<lambda>tc'.
                ebind (getitem r ''Attrition'') (\<lambda>a.
                if a = ''Yes'' then ebind (list_inc ac idx) (\<lambda>ac'. Inr (tc', ac'))
                else Inr (tc', ac)))
              else Inr (tc, ac)))
            rows (replicate (length bins) 0, replicate (length bins) 0)) (\<lambda>(tc, ac).
     Inr \<lparr>c_labels = labels, c_total = tc, c_attrition = ac\<rparr>))"

definition api_gender_split :: "row list \<Rightarrow> params \<Rightarrow> error + count_result" where
  "api_gender_split file p =
     ebind (srv_load file p) (\<lambda>rows.
     ebind (counter_of rows ''Gender'') (\<lambda>cnt.
     ebind (counter_of_yes rows ''Gender'') (\<lambda>attr.
     let labels = sort (counter_keys cnt) in
     Inr \<lparr>c_labels = labels, c_total = map (counter_get cnt) labels,
          c_attrition = map (counter_get attr) labels\<rparr>)))"

definition api_income_role :: "row list \<Rightarrow> params \<Rightarrow> error + income_result" where
  "api_income_role file p =
     ebind (srv_load file p) (\<lambda>rows.
     ebind (efold (\<lambda>role_income r.
              ebind (getitem r ''JobRole'') (\<lambda>k.
              ebind (int_field r ''MonthlyIncome'') (\<lambda>v.
              Inr (dd_append role_income k v))))
            rows []) (\<lambda>role_income.
     let labels = sort (map fst role_income) in
     ebind (emap (\<lambda>l.
              if dd_get role_income l \<noteq> [] then
                ebind (truediv (sum_list (dd_get role_income l))
                         (int (length (dd_get role_income l))))
                  (\<lambda>q. Inr (PRound q))
              else Inr (PInt 0)) labels) (\<lambda>avg_income.
     Inr \<lparr>i_labels = labels, i_avg_income = avg_income\<rparr>)))"

definition api_satisfaction :: "row list \<Rightarrow> params \<Rightarrow> error + split_result" where
  "api_satisfaction file p =
     ebind (srv_load file p) (\<lambda>rows.
     let labels = [''1 - Low'', ''2 - Medium'', ''3 - High'', ''4 - Very High''] in
     ebind (efold (\<lambda>(stayed, left) r.
              ebind (int_field r ''JobSatisfaction'') (\<lambda>v.
              let idx = v - 1 in
              ebind (getitem r ''Attrition'') (\<lambda>a.
              if a = ''Yes'' then ebind (list_inc left idx) (\<lambda>left'. Inr (stayed, left'))
              else ebind (list_inc stayed idx) (\<lambda>stayed'. Inr (stayed', left)))))
            rows ([0, 0, 0, 0], [0, 0, 0, 0])) (\<lambda>(stayed, left).
     Inr \<lparr>s_labels = labels, s_stayed = stayed, s_left = left\<rparr>))"

definition api_overtime :: "row list \<Rightarrow> params \<Rightarrow> error + split_result" where
  "api_overtime file p =
     ebind (srv_load file p) (\<lambda>rows.
     ebind (efold (\<lambda>data r.
              ebind (getitem r ''OverTime'') (\<lambda>ot.
              ebind (getitem data ot) (\<lambda>inner.
              ebind (getitem r ''Attrition'') (\<lambda>a.
              ebind (getitem inner a) (\<lambda>n.
              Inr (data(ot \<mapsto> inner(a \<mapsto> n + 1)))))))) rows
            [''Yes'' \<mapsto> [''Yes'' \<mapsto> 0, ''No'' \<mapsto> 0], ''No'' \<mapsto> [''Yes'' \<mapsto> 0, ''No'' \<mapsto> 0]])
       (\<lambda>data.
     ebind (getitem2 data ''Yes'' ''No'') (\<lambda>yn.
     ebind (getitem2 data ''No'' ''No'') (\<lambda>nn.
     ebind (getitem2 data ''Yes'' ''Yes'') (\<lambda>yy.
     ebind (getitem2 data ''No'' ''Yes'') (\<lambda>ny.
     Inr \<lparr>s_labels = [''With Overtime'', ''Without Overtime''],
          s_stayed = [yn, nn], s_left = [yy, ny]\<rparr>))))))"

definition api_edu_field :: "row list \<Rightarrow> params \<Rightarrow> error + count_result" where
  "api_edu_field file p =
     ebind (srv_load file p) (\<lambda>rows.
     ebind (counter_of rows ''EducationField'') (\<lambda>cnt.
     ebind (counter_of_yes rows ''EducationField'') (\<lambda>attr.
     let labels = sort (counter_keys cnt) in
     Inr \<lparr>c_labels = labels, c_total = map (counter_get cnt) labels,
          c_attrition = map (counter_get attr) labels\<rparr>)))"

definition api_years_attrition :: "row list \<Rightarrow> params \<Rightarrow> error + years_result" where
  "api_years_attrition file p =
     ebind (srv_load file p) (\<lambda>rows.
     ebind (efold (\<lambda>(yt, ya) r.
              ebind (int_field r ''YearsAtCompany'') (\<lambda>y.
              let yt' = counter_inc yt y in
              ebind (getitem r ''Attrition'') (\<lambda>a.
              Inr (yt', if a = ''Yes'' then counter_inc ya y else ya))))
            rows ([], [])) (\<lambda>(yt, ya).
     let mx = (if yt \<noteq> [] then Max (set (counter_keys yt)) else 0);
         labels = range0 (min (mx + 1) 41) in
     ebind (emap (\<lambda>y. rate_of (counter_get ya y) (counter_get yt y)) labels) (\<lambda>rates.
     Inr \<lparr>y_labels = labels, y_attrition_rate = rates,
          y_total = map (counter_get yt) labels\<rparr>)))"

definition api_worklife :: "row list \<Rightarrow> params \<Rightarrow> error + worklife_result" where
  "api_worklife file p =
     ebind (srv_load file p) (\<lambda>rows.
     let metrics = [''JobSatisfaction'', ''EnvironmentSatisfaction'',
           ''RelationshipSatisfaction'', ''WorkLifeBalance'', ''JobInvolvement''];
         labels = [''Job Satisfaction'', ''Environment'', ''Relationships'',
           ''Work-Life Balance'', ''Job Involvement''] in
     ebind (efold (\<lambda>(stayed_avgs, left_avgs) m.
              ebind (metric_values rows m ''No'') (\<lambda>stayed.
              ebind (metric_values rows m ''Yes'') (\<lambda>left.
              ebind (mean2 stayed) (\<lambda>sa.
              ebind (mean2 left) (\<lambda>la.
              Inr (stayed_avgs @ [sa], left_avgs @ [la]))))))
            metrics ([], [])) (\<lambda>(stayed_avgs, left_avgs).
     Inr \<lparr>w_labels = labels, w_stayed = stayed_avgs, w_left = left_avgs\<rparr>))"

subsection \<open>The HTTP boundary of \<^verbatim>\<open>server.py\<close>\<close>

text \<open>
  \<^verbatim>\<open>get_params\<close> reads the four filters from \<^verbatim>\<open>parse_qs(qs)\<close>, a dictionary of lists:
  \<^verbatim>\<open>p.get(k, [None])[0]\<close>. The library function \<^verbatim>\<open>parse_qs\<close> is a parameter.
\<close>

definition get_first :: "(string \<rightharpoonup> string list) \<Rightarrow> string \<Rightarrow> error + string option" where
  "get_first p k =
     (case p k of None \<Rightarrow> Inr None | Some [] \<Rightarrow> Inl IndexError | Some (v # vs) \<Rightarrow> Inr (Some v))"

definition get_params :: "(string \<Rightarrow> (string \<rightharpoonup> string list)) \<Rightarrow> string \<Rightarrow> error + params" where
  "get_params parse_qs qs =
     (let p = parse_qs qs in
      ebind (get_first p ''gender'') (\<lambda>g.
      ebind (get_first p ''job_role'') (\<lambda>j.
      ebind (get_first p ''education'') (\<lambda>e.
      ebind (get_first p ''department'') (\<lambda>d.
      Inr \<lparr>p_gender = g, p_job_role = j, p_education = e, p_department = d\<rparr>)))))"

datatype payload =
    Filters filters_result
  | Kpis kpis_result
  | RateView rate_result
  | CountView count_result
  | IncomeView income_result
  | SplitView split_result
  | YearsView years_result
  | WorklifeView worklife_result

datatype handler =
    NoParams "row list \<Rightarrow> error + payload"
  | WithParams "row list \<Rightarrow> params \<Rightarrow> error + payload"

text \<open>\<open>returning C m\<close> tags the result of a handler with the shape of its dictionary.\<close>

definition returning :: "('a \<Rightarrow> payload) \<Rightarrow> error + 'a \<Rightarrow> error + payload" where
  "returning C m = ebind m (\<lambda>v. Inr (C v))"

definition ROUTES :: "string \<rightharpoonup> handler" where
  "ROUTES = map_of
     [(''/api/filters'', NoParams (\<lambda>f. returning Filters (api_filters f))),
      (''/api/kpis'', WithParams (\<lambda>f p. returning Kpis (api_kpis f p))),
      (''/api/attrition-by-department'',
         WithParams (\<lambda>f p. returning RateView (api_attrition_dept f p))),
      (''/api/attrition-by-jobrole'',
         WithParams (\<lambda>f p. returning RateView (api_attrition_jobrole f p))),
      (''/api/age-distribution'', WithParams (\<lambda>f p. returning CountView (api_age_dist f p))),
      (''/api/gender-split'', WithParams (\<lambda>f p. returning CountView (api_gender_split f p))),
      (''/api/income-by-role'', WithParams (\<lambda>f p. returning IncomeView (api_income_role f p))),
      (''/api/satisfaction-distribution'',
         WithParams (\<lambda>f p. returning SplitView (api_satisfaction f p))),
      (''/api/overtime-attrition'', WithParams (\<lambda>f p. returning SplitView (api_overtime f p))),
      (''/api/education-field'', WithParams (\<lambda>f p. returning CountView (api_edu_field f p))),
      (''/api/years-attrition'',
         WithParams (\<lambda>f p. returning YearsView (api_years_attrition f p))),
      (''/api/worklife-balance'', WithParams (\<lambda>f p. returning WorklifeView (api_worklife f p)))]"

text \<open>
  \<^verbatim>\<open>Handler.do_GET\<close>, on the path and the query string that \<^verbatim>\<open>urlparse\<close> gives. For a
  route, everything from \<^verbatim>\<open>get_params\<close> to the handler runs inside \<^verbatim>\<open>try\<close>; any exception
  becomes \<^verbatim>\<open>send_error(500, str(e))\<close>, a result becomes a 200 response carrying its JSON
  text. Other paths go to the static file handler.
\<close>

datatype response = Ok200 payload | Error500 error | Static string

definition do_GET ::
  "(string \<Rightarrow> (string \<rightharpoonup> string list)) \<Rightarrow> row list \<Rightarrow> string \<Rightarrow> string \<Rightarrow> response" where
  "do_GET parse_qs file path query =
     (case ROUTES path of
        Some h \<Rightarrow>
          (case (case h of
                   WithParams fn \<Rightarrow> ebind (get_params parse_qs query) (fn file)
                 | NoParams fn \<Rightarrow> fn file) of
             Inr result \<Rightarrow> Ok200 result
           | Inl e \<Rightarrow> Error500 e)
      | None \<Rightarrow> if path = ''/'' \<or> path = [] then Static ''/index.html'' else Static path)"

subsection \<open>Predicates of the statements\<close>

text \<open>
  What the loader's contract says of one constraint and one field: a constraint that is
  absent (\<open>None\<close>) or the empty string restricts nothing, any other constraint asks the
  field to be that very string. \<open>keeps\<close> is the conjunction over the four constraints.
\<close>

definition constraint_ok :: "string option \<Rightarrow> string option \<Rightarrow> bool" where
  "constraint_ok a v = (a = None \<or> a = Some [] \<or> v = a)"

definition keeps ::
  "string option \<Rightarrow> string option \<Rightarrow> string option \<Rightarrow> string option \<Rightarrow> row \<Rightarrow> bool" where
  "keeps g j e d r = (constraint_ok g (r ''Gender'') \<and> constraint_ok j (r ''JobRole'')
     \<and> constraint_ok e (r ''Education'') \<and> constraint_ok d (r ''Department''))"

text \<open>A row that has the four columns the loader may read.\<close>

definition has_filter_fields :: "row \<Rightarrow> bool" where
  "has_filter_fields r = (r ''Gender'' \<noteq> None \<and> r ''JobRole'' \<noteq> None
     \<and> r ''Education'' \<noteq> None \<and> r ''Department'' \<noteq> None)"

text \<open>A row that left: \<^verbatim>\<open>r["Attrition"] == "Yes"\<close>.\<close>

definition is_yes :: "row \<Rightarrow> bool" where
  "is_yes r = (r ''Attrition'' = Some ''Yes'')"

text \<open>
  The bin of an age as the histogram is meant to be read: none below 18, five years per
  bin from 18 on, and everything from 63 on in the tenth bin (index 9).
\<close>

definition age_bin :: "int \<Rightarrow> nat option" where
  "age_bin a = (if a < 18 then None else if 63 \<le> a then Some 9 else Some (nat ((a - 18) div 5)))"

text \<open>The bin of a row; none when its \<^verbatim>\<open>Age\<close> is missing or is no integer.\<close>

definition age_bin_of :: "row \<Rightarrow> nat option" where
  "age_bin_of r = (case int_field r ''Age'' of Inl e \<Rightarrow> None | Inr a \<Rightarrow> age_bin a)"

text \<open>Three employees, used to instantiate the theorems below.\<close>

definition sample_rows :: "row list" where
  "sample_rows =
     [map_of [(''Gender'', ''Female''), (''JobRole'', ''Manager''), (''Education'', ''3''),
        (''Department'', ''A''), (''Attrition'', ''Yes''), (''Age'', ''17''),
        (''MonthlyIncome'', ''5000''), (''JobSatisfaction'', ''1''),
        (''EnvironmentSatisfaction'', ''2''), (''RelationshipSatisfaction'', ''3''),
        (''WorkLifeBalance'', ''4''), (''JobInvolvement'', ''2''), (''OverTime'', ''Yes''),
        (''EducationField'', ''Medical''), (''YearsAtCompany'', ''55'')],
      map_of [(''Gender'', ''Male''), (''JobRole'', ''Manager''), (''Education'', ''3''),
        (''Department'', ''A''), (''Attrition'', ''No''), (''Age'', ''61''),
        (''MonthlyIncome'', ''4000''), (''JobSatisfaction'', ''4''),
        (''EnvironmentSatisfaction'', ''2''), (''RelationshipSatisfaction'', ''3''),
        (''WorkLifeBalance'', ''4''), (''JobInvolvement'', ''2''), (''OverTime'', ''No''),
        (''EducationField'', ''Medical''), (''YearsAtCompany'', ''2'')],
      map_of [(''Gender'', ''Male''), (''JobRole'', ''Clerk''), (''Education'', ''2''),
        (''Department'', ''B''), (''Attrition'', ''No''), (''Age'', ''30''),
        (''MonthlyIncome'', ''3000''), (''JobSatisfaction'', ''3''),
        (''EnvironmentSatisfaction'', ''1''), (''RelationshipSatisfaction'', ''1''),
        (''WorkLifeBalance'', ''2''), (''JobInvolvement'', ''3''), (''OverTime'', ''No''),
        (''EducationField'', ''Other''), (''YearsAtCompany'', ''0'')]]"

text \<open>A row whose \<^verbatim>\<open>Age\<close> parses to an integer of 18 or more.\<close>

definition aged_18_up :: "row \<Rightarrow> bool" where
  "aged_18_up r = (case int_field r ''Age'' of Inl e \<Rightarrow> False | Inr a \<Rightarrow> 18 \<le> a)"

text \<open>A row whose \<^verbatim>\<open>YearsAtCompany\<close> parses to an integer from 0 to 40.\<close>

definition years_in_range :: "row \<Rightarrow> bool" where
  "years_in_range r =
     (case int_field r ''YearsAtCompany'' of Inl e \<Rightarrow> False | Inr y \<Rightarrow> 0 \<le> y \<and> y \<le> 40)"

text \<open>
  The years the rows hold, and their maximum, which is 0 when there is none
  (\<^verbatim>\<open>max(year_total.keys()) if year_total else 0\<close>).
\<close>

definition years_seen :: "row list \<Rightarrow> int list" where
  "years_seen rows =
     concat (map (\<lambda>r. case int_field r ''YearsAtCompany'' of Inl e \<Rightarrow> [] | Inr y \<Rightarrow> [y]) rows)"

definition max_years_seen :: "row list \<Rightarrow> int" where
  "max_years_seen rows = (if years_seen rows = [] then 0 else Max (set (years_seen rows)))"

section \<open>Properties\<close>

subsection \<open>Sequencing and lookups\<close>

lemma ebind_Inl [simp]: "ebind (Inl e) f = Inl e"
  by (simp add: ebind_def)

lemma ebind_Inr [simp]: "ebind (Inr v) f = f v"
  by (simp add: ebind_def)

lemma ebind_eq_Inr: "ebind m f = Inr y \<longleftrightarrow> (\<exists>v. m = Inr v \<and> f v = Inr y)"
  by (cases m) simp_all

lemma getitem_Some [simp]: "r k = Some v \<Longrightarrow> getitem r k = Inr v"
  by (simp add: getitem_def)

lemma getitem_None [simp]: "r k = None \<Longrightarrow> getitem r k = Inl (KeyError k)"
  by (simp add: getitem_def)

lemma getitem_eq_Inr: "getitem r k = Inr v \<longleftrightarrow> r k = Some v"
  by (simp add: getitem_def split: option.splits)

subsection \<open>The row loader\<close>

lemma skips_eq_Inr: "skips a k row = Inr b \<Longrightarrow> b = (\<not> constraint_ok a (row k))"
  by (auto simp: skips_def truthy_def constraint_ok_def ebind_eq_Inr getitem_eq_Inr split: option.splits if_splits)

lemma skips_total: "row k \<noteq> None \<Longrightarrow> skips a k row = Inr (\<not> constraint_ok a (row k))"
  by (auto simp: skips_def truthy_def constraint_ok_def split: option.splits)

lemma load_step_eq_Inr:
  "load_step g j e d acc row = Inr acc' \<Longrightarrow> acc' = (if keeps g j e d row then acc @ [row] else acc)"
  unfolding load_step_def keeps_def
  by (auto simp: ebind_eq_Inr dest!: skips_eq_Inr split: if_splits)

lemma efold_load_step:
  "efold (load_step g j e d) csv acc = Inr rows \<Longrightarrow> rows = acc @ filter (keeps g j e d) csv"
proof (induction csv arbitrary: acc)
  case Nil
  then show ?case by simp
next
  case (Cons r csv)
  from Cons.prems obtain acc' where s: "load_step g j e d acc r = Inr acc'"
    and f: "efold (load_step g j e d) csv acc' = Inr rows"
    by (auto split: sum.splits)
  from Cons.IH [OF f] load_step_eq_Inr [OF s] show ?case by simp
qed

lemma load_step_total:
  "has_filter_fields row \<Longrightarrow> load_step g j e d acc row = Inr (if keeps g j e d row then acc @ [row] else acc)"
  unfolding load_step_def keeps_def has_filter_fields_def
  by (simp add: skips_total)

lemma efold_load_step_total:
  "list_all has_filter_fields csv \<Longrightarrow> efold (load_step g j e d) csv acc = Inr (acc @ filter (keeps g j e d) csv)"
  by (induction csv arbitrary: acc) (simp_all add: load_step_total)

lemma srv_load_step_eq: "srv_load_step = load_step"
  by (intro ext) (simp add: srv_load_step_def load_step_def)

lemma srv_load_data_eq: "srv_load_data = load_data"
  by (intro ext) (simp add: srv_load_data_def load_data_def srv_load_step_eq)

text \<open>
  C3 (amended). For every content of the file and every four filter arguments, the rows
  the loader returns are exactly the rows of the file on which every constraint holds, in
  file order, where a constraint that is \<open>None\<close> or the empty string holds on every row and
  any other constraint holds when the row's field is exactly that string. Both loaders
  return that list whenever every row has the four filter columns, and return nothing else
  when they return at all.
\<close>

theorem load_data_returns_matching_rows:
  "(load_data csv g j e d = Inr rows \<longrightarrow> rows = filter (keeps g j e d) csv) \<and>
   (srv_load_data csv g j e d = Inr rows \<longrightarrow> rows = filter (keeps g j e d) csv) \<and>
   (list_all has_filter_fields csv \<longrightarrow>
      load_data csv g j e d = Inr (filter (keeps g j e d) csv) \<and>
      srv_load_data csv g j e d = Inr (filter (keeps g j e d) csv))"
  using efold_load_step [of g j e d csv "[]" rows] efold_load_step_total [of csv g j e d "[]"]
  by (simp add: srv_load_data_eq load_data_def)

theorem load_data_returns_matching_rows_witness:
  "list_all has_filter_fields
     [map_of [(''Gender'', ''Male''), (''JobRole'', ''Manager''), (''Education'', ''3''),
              (''Department'', ''Sales'')],
      map_of [(''Gender'', ''Female''), (''JobRole'', ''Manager''), (''Education'', ''3''),
              (''Department'', ''Sales'')],
      map_of [(''Gender'', ''Male''), (''JobRole'', ''Manager''), (''Education'', ''4''),
              (''Department'', ''Sales'')]] \<and>
   load_data
     [map_of [(''Gender'', ''Male''), (''JobRole'', ''Manager''), (''Education'', ''3''),
              (''Department'', ''Sales'')],
      map_of [(''Gender'', ''Female''), (''JobRole'', ''Manager''), (''Education'', ''3''),
              (''Department'', ''Sales'')],
      map_of [(''Gender'', ''Male''), (''JobRole'', ''Manager''), (''Education'', ''4''),
              (''Department'', ''Sales'')]]
     (Some ''Male'') None None (Some ''Sales'') =
   Inr [map_of [(''Gender'', ''Male''), (''JobRole'', ''Manager''), (''Education'', ''3''),
                (''Department'', ''Sales'')],
        map_of [(''Gender'', ''Male''), (''JobRole'', ''Manager''), (''Education'', ''4''),
                (''Department'', ''Sales'')]]"
  using load_data_returns_matching_rows
    [of "[map_of [(''Gender'', ''Male''), (''JobRole'', ''Manager''), (''Education'', ''3''),
              (''Department'', ''Sales'')],
      map_of [(''Gender'', ''Female''), (''JobRole'', ''Manager''), (''Education'', ''3''),
              (''Department'', ''Sales'')],
      map_of [(''Gender'', ''Male''), (''JobRole'', ''Manager''), (''Education'', ''4''),
              (''Department'', ''Sales'')]]" "Some ''Male''" None None "Some ''Sales''" "[]"]
  by (simp add: has_filter_fields_def keeps_def constraint_ok_def)

text \<open>
  As stated, C3 fails for a constraint that is supplied as the empty string: the loader
  returns a row whose \<^verbatim>\<open>Gender\<close> is not the empty string.
\<close>

theorem load_data_empty_string_counterexample:
  "load_data [[''Gender'' \<mapsto> ''Male'']] (Some '''') None None None =
     Inr [[''Gender'' \<mapsto> ''Male'']] \<and>
   [''Gender'' \<mapsto> ''Male''] ''Gender'' \<noteq> Some ''''"
  by (simp add: load_data_def load_step_def skips_def truthy_def)

subsection \<open>The two files compute the same views\<close>

lemma srv_load_eq: "srv_load csv \<lparr>p_gender = g, p_job_role = j, p_education = e, p_department = d\<rparr> = load_data csv g j e d"
  by (simp add: srv_load_def srv_load_data_eq)

lemma education_sorted: "sort_key fst EDUCATION_MAP = sort EDUCATION_MAP"
  by code_simp

lemma api_filters_eq: "api_filters csv = get_filters csv"
  by (simp add: api_filters_def get_filters_def srv_load_data_eq education_sorted)

lemma efold_count_yes_bounds:
  "efold (\<lambda>n r. ebind (getitem r ''Attrition'') (\<lambda>a. Inr (if a = ''Yes'' then n + 1 else n))) rows n0 = Inr n
   \<Longrightarrow> n0 \<le> n \<and> n \<le> n0 + int (length rows)"
proof (induction rows arbitrary: n0)
  case Nil
  then show ?case by simp
next
  case (Cons r rows)
  from Cons.prems obtain n1 where s: "ebind (getitem r ''Attrition'') (\<lambda>a. Inr (if a = ''Yes'' then n0 + 1 else n0)) = Inr n1"
    and f: "efold (\<lambda>n r. ebind (getitem r ''Attrition'') (\<lambda>a. Inr (if a = ''Yes'' then n + 1 else n))) rows n1 = Inr n"
    by (auto split: sum.splits)
  from s have "n0 \<le> n1 \<and> n1 \<le> n0 + 1" by (auto simp: ebind_eq_Inr split: if_splits)
  with Cons.IH [OF f] show ?case by simp
qed

lemma count_yes_bounds: "count_yes rows = Inr n \<Longrightarrow> 0 \<le> n \<and> n \<le> int (length rows)"
  using efold_count_yes_bounds [of rows 0 n] by (simp add: count_yes_def)

lemma float_overflow_bound_gt1: "1 < float_overflow_bound"
proof -
  have "(2::int) ^ 970 * 2 \<le> 2 ^ 970 * 2 ^ 54" by (intro mult_left_mono) simp_all
  then have "(2::int) ^ 970 + 2 ^ 970 \<le> 2 ^ 1024" by (simp add: power_add [symmetric])
  moreover have "(1::int) < 2 ^ 970" by (rule one_less_power) simp_all
  ultimately show ?thesis by (simp add: float_overflow_bound_def)
qed

lemma truediv_count: "0 \<le> a \<Longrightarrow> a \<le> t \<Longrightarrow> t \<noteq> 0 \<Longrightarrow> truediv a t = Inr (TrueDiv a t)"
proof -
  assume a: "0 \<le> a" "a \<le> t" "t \<noteq> 0"
  then have t: "0 < t" by simp
  have "1 * t < float_overflow_bound * t"
    using float_overflow_bound_gt1 t by (rule mult_strict_right_mono)
  then have lt: "t < float_overflow_bound * t" by (simp only: mult_1)
  have "\<not> float_overflow_bound * t \<le> a" using lt a by linarith
  moreover have "\<bar>t\<bar> = t" "\<bar>a\<bar> = a" using a t by simp_all
  ultimately show ?thesis using a by (simp add: truediv_def)
qed

lemma api_kpis_eq: "api_kpis csv \<lparr>p_gender = g, p_job_role = j, p_education = e, p_department = d\<rparr> = get_kpis csv g j e d"
proof (cases "load_data csv g j e d")
  case (Inl err)
  then show ?thesis by (simp add: api_kpis_def get_kpis_def srv_load_eq)
next
  case (Inr rows)
  show ?thesis
  proof (cases "rows = []")
    case True
    with Inr show ?thesis by (simp add: api_kpis_def get_kpis_def srv_load_eq kpis_empty_def)
  next
    case False
    show ?thesis
    proof (cases "count_yes rows")
      case (Inl err)
      with Inr False show ?thesis by (simp add: api_kpis_def get_kpis_def srv_load_eq)
    next
      case (Inr n)
      from count_yes_bounds [OF Inr] False
      have q: "truediv n (int (length rows)) = Inr (TrueDiv n (int (length rows)))"
        by (intro truediv_count) simp_all
      from Inr \<open>load_data csv g j e d = Inr rows\<close> False q show ?thesis
        by (simp add: api_kpis_def get_kpis_def srv_load_eq Let_def ebind_def split: sum.splits)
    qed
  qed
qed

lemma api_attrition_dept_eq: "api_attrition_dept csv \<lparr>p_gender = g, p_job_role = j, p_education = e, p_department = d\<rparr> = attrition_by_department csv g j e d"
  by (simp add: api_attrition_dept_def attrition_by_department_def srv_load_eq)

lemma api_attrition_jobrole_eq: "api_attrition_jobrole csv \<lparr>p_gender = g, p_job_role = j, p_education = e, p_department = d\<rparr> = attrition_by_jobrole csv g j e d"
  by (simp add: api_attrition_jobrole_def attrition_by_jobrole_def srv_load_eq)

lemma api_age_dist_eq: "api_age_dist csv \<lparr>p_gender = g, p_job_role = j, p_education = e, p_department = d\<rparr> = age_distribution csv g j e d"
  by (simp add: api_age_dist_def age_distribution_def srv_load_eq age_step_def bins_def Let_def)

lemma api_gender_split_eq: "api_gender_split csv \<lparr>p_gender = g, p_job_role = j, p_education = e, p_department = d\<rparr> = gender_split csv g j e d"
  by (simp add: api_gender_split_def gender_split_def srv_load_eq)

lemma api_income_role_eq: "api_income_role csv \<lparr>p_gender = g, p_job_role = j, p_education = e, p_department = d\<rparr> = income_by_role csv g j e d"
  by (simp add: api_income_role_def income_by_role_def srv_load_eq)

lemma api_satisfaction_eq: "api_satisfaction csv \<lparr>p_gender = g, p_job_role = j, p_education = e, p_department = d\<rparr> = satisfaction_distribution csv g j e d"
  by (simp add: api_satisfaction_def satisfaction_distribution_def srv_load_eq sat_step_def)

lemma api_overtime_eq: "api_overtime csv \<lparr>p_gender = g, p_job_role = j, p_education = e, p_department = d\<rparr> = overtime_attrition csv g j e d"
proof -
  have "overtime_step = (\<lambda>data r.
              ebind (getitem r ''OverTime'') (\<lambda>ot.
              ebind (getitem data ot) (\<lambda>inner.
              ebind (getitem r ''Attrition'') (\<lambda>a.
              ebind (getitem inner a) (\<lambda>n.
              Inr (data(ot \<mapsto> inner(a \<mapsto> n + 1)))))))) "
    by (intro ext) (simp add: overtime_step_def)
  then show ?thesis
    by (simp add: api_overtime_def overtime_attrition_def srv_load_eq overtime_data0_def)
qed

lemma api_edu_field_eq: "api_edu_field csv \<lparr>p_gender = g, p_job_role = j, p_education = e, p_department = d\<rparr> = education_field csv g j e d"
  by (simp add: api_edu_field_def education_field_def srv_load_eq)

lemma api_years_attrition_eq: "api_years_attrition csv \<lparr>p_gender = g, p_job_role = j, p_education = e, p_department = d\<rparr> = years_attrition csv g j e d"
  by (simp add: api_years_attrition_def years_attrition_def srv_load_eq years_step_def Let_def)

lemma api_worklife_eq: "api_worklife csv \<lparr>p_gender = g, p_job_role = j, p_education = e, p_department = d\<rparr> = worklife_balance csv g j e d"
proof -
  have "worklife_step rows = (\<lambda>(stayed_avgs, left_avgs) m.
              ebind (metric_values rows m ''No'') (\<lambda>stayed.
              ebind (metric_values rows m ''Yes'') (\<lambda>left.
              ebind (mean2 stayed) (\<lambda>sa.
              ebind (mean2 left) (\<lambda>la.
              Inr (stayed_avgs @ [sa], left_avgs @ [la]))))))" for rows
    by (simp add: worklife_step_def)
  then show ?thesis
    by (simp add: api_worklife_def worklife_balance_def srv_load_eq metrics_def worklife_labels_def)
qed

text \<open>
  C10. View by view, the handler of \<^verbatim>\<open>server.py\<close> and the handler of \<^verbatim>\<open>main.py\<close> give the
  same outcome (the same result object, or the same exception) on the same file content
  and the same four filter arguments.
\<close>

theorem server_handlers_equal_main_handlers:
  "api_filters csv = get_filters csv \<and>
   api_kpis csv \<lparr>p_gender = g, p_job_role = j, p_education = e, p_department = d\<rparr>
     = get_kpis csv g j e d \<and>
   api_attrition_dept csv \<lparr>p_gender = g, p_job_role = j, p_education = e, p_department = d\<rparr>
     = attrition_by_department csv g j e d \<and>
   api_attrition_jobrole csv \<lparr>p_gender = g, p_job_role = j, p_education = e, p_department = d\<rparr>
     = attrition_by_jobrole csv g j e d \<and>
   api_age_dist csv \<lparr>p_gender = g, p_job_role = j, p_education = e, p_department = d\<rparr>
     = age_distribution csv g j e d \<and>
   api_gender_split csv \<lparr>p_gender = g, p_job_role = j, p_education = e, p_department = d\<rparr>
     = gender_split csv g j e d \<and>
   api_income_role csv \<lparr>p_gender = g, p_job_role = j, p_education = e, p_department = d\<rparr>
     = income_by_role csv g j e d \<and>
   api_satisfaction csv \<lparr>p_gender = g, p_job_role = j, p_education = e, p_department = d\<rparr>
     = satisfaction_distribution csv g j e d \<and>
   api_overtime csv \<lparr>p_gender = g, p_job_role = j, p_education = e, p_department = d\<rparr>
     = overtime_attrition csv g j e d \<and>
   api_edu_field csv \<lparr>p_gender = g, p_job_role = j, p_education = e, p_department = d\<rparr>
     = education_field csv g j e d \<and>
   api_years_attrition csv \<lparr>p_gender = g, p_job_role = j, p_education = e, p_department = d\<rparr>
     = years_attrition csv g j e d \<and>
   api_worklife csv \<lparr>p_gender = g, p_job_role = j, p_education = e, p_department = d\<rparr>
     = worklife_balance csv g j e d"
  by (simp only: api_filters_eq api_kpis_eq api_attrition_dept_eq api_attrition_jobrole_eq
      api_age_dist_eq api_gender_split_eq api_income_role_eq api_satisfaction_eq
      api_overtime_eq api_edu_field_eq api_years_attrition_eq api_worklife_eq simp_thms)

subsection \<open>The KPI summary of an empty set\<close>

text \<open>
  C5. Whenever the filtered set is empty, the KPI summary of either file is exactly
  \<^verbatim>\<open>{total: 0, attrition_rate: 0, avg_age: 0, avg_income: 0, avg_satisfaction: 0}\<close>: the
  handler returns before any division, so no exception, and no \<^verbatim>\<open>ZeroDivisionError\<close> in
  particular, comes out of it.
\<close>

theorem kpis_of_empty_set:
  "(load_data csv g j e d = Inr [] \<longrightarrow>
      get_kpis csv g j e d =
        Inr \<lparr>k_total = 0, k_attrition_rate = PInt 0, k_avg_age = PInt 0,
             k_avg_income = PInt 0, k_avg_satisfaction = PInt 0\<rparr>) \<and>
   (srv_load csv p = Inr [] \<longrightarrow>
      api_kpis csv p =
        Inr \<lparr>k_total = 0, k_attrition_rate = PInt 0, k_avg_age = PInt 0,
             k_avg_income = PInt 0, k_avg_satisfaction = PInt 0\<rparr>)"
  by (simp add: get_kpis_def api_kpis_def kpis_empty_def)

theorem kpis_of_empty_set_witness:
  "load_data [[''Gender'' \<mapsto> ''Male'']] (Some ''Female'') None None None = Inr [] \<and>
   get_kpis [[''Gender'' \<mapsto> ''Male'']] (Some ''Female'') None None None =
     Inr \<lparr>k_total = 0, k_attrition_rate = PInt 0, k_avg_age = PInt 0,
          k_avg_income = PInt 0, k_avg_satisfaction = PInt 0\<rparr> \<and>
   srv_load [[''Gender'' \<mapsto> ''Male'']]
     \<lparr>p_gender = Some ''Female'', p_job_role = None, p_education = None,
      p_department = None\<rparr> = Inr [] \<and>
   api_kpis [[''Gender'' \<mapsto> ''Male'']]
     \<lparr>p_gender = Some ''Female'', p_job_role = None, p_education = None,
      p_department = None\<rparr> =
     Inr \<lparr>k_total = 0, k_attrition_rate = PInt 0, k_avg_age = PInt 0,
          k_avg_income = PInt 0, k_avg_satisfaction = PInt 0\<rparr>"
proof -
  have l: "load_data [[''Gender'' \<mapsto> ''Male'']] (Some ''Female'') None None None = Inr []"
    by (simp add: load_data_def load_step_def skips_def truthy_def)
  have s: "srv_load [[''Gender'' \<mapsto> ''Male'']]
     \<lparr>p_gender = Some ''Female'', p_job_role = None, p_education = None,
      p_department = None\<rparr> = Inr []"
    by (simp add: srv_load_def srv_load_data_def srv_load_step_def skips_def truthy_def)
  from l s kpis_of_empty_set [of "[[''Gender'' \<mapsto> ''Male'']]" "Some ''Female''" None None None
      "\<lparr>p_gender = Some ''Female'', p_job_role = None, p_education = None,
        p_department = None\<rparr>"]
  show ?thesis by simp
qed

subsection \<open>Counters and the loops that fill them\<close>

lemma counter_get_Nil [simp]: "counter_get [] k = 0"
  by (simp add: counter_get_def)

lemma counter_get_inc: "counter_get (counter_inc c k) x = counter_get c x + (if x = k then 1 else 0)"
  by (induction c k rule: counter_inc.induct) (auto simp: counter_get_def)

lemma set_keys_inc: "set (counter_keys (counter_inc c k)) = insert k (set (counter_keys c))"
  by (induction c k rule: counter_inc.induct) (auto simp: counter_keys_def)

lemma distinct_keys_inc: "distinct (counter_keys c) \<Longrightarrow> distinct (counter_keys (counter_inc c k))"
proof (induction c k rule: counter_inc.induct)
  case (1 k)
  then show ?case by (simp add: counter_keys_def)
next
  case (2 k' n c k)
  then show ?case using set_keys_inc [of c k] by (auto simp: counter_keys_def)
qed

lemma counter_inc_not_Nil [simp]: "counter_inc c k \<noteq> []"
  by (induction c k rule: counter_inc.induct) (auto split: if_splits)

text \<open>The loop with two counters, for any way of reading the key off a row.\<close>

lemma efold_two_counters:
  "efold (\<lambda>(t, a) r. ebind (key r) (\<lambda>d. ebind (getitem r ''Attrition'') (\<lambda>y.
       Inr (counter_inc t d, if y = ''Yes'' then counter_inc a d else a)))) rows (t0, a0) = Inr (t, a)
   \<Longrightarrow> (\<forall>x. counter_get t x = counter_get t0 x + int (length (filter (\<lambda>r. key r = Inr x) rows)))
     \<and> (\<forall>x. counter_get a x = counter_get a0 x + int (length (filter (\<lambda>r. key r = Inr x \<and> is_yes r) rows)))
     \<and> set (counter_keys t) = set (counter_keys t0) \<union> {x. \<exists>r\<in>set rows. key r = Inr x}
     \<and> (distinct (counter_keys t0) \<longrightarrow> distinct (counter_keys t))
     \<and> (\<forall>r\<in>set rows. (\<exists>x. key r = Inr x) \<and> r ''Attrition'' \<noteq> None)
     \<and> (t = [] \<longleftrightarrow> t0 = [] \<and> rows = [])"
proof (induction rows arbitrary: t0 a0)
  case Nil
  then show ?case by simp
next
  case (Cons r rows)
  let ?f = "\<lambda>(t, a) r. ebind (key r) (\<lambda>d. ebind (getitem r ''Attrition'') (\<lambda>y.
       Inr (counter_inc t d, if y = ''Yes'' then counter_inc a d else a)))"
  from Cons.prems obtain s where s: "?f (t0, a0) r = Inr s" and f: "efold ?f rows s = Inr (t, a)"
    by (auto split: sum.splits)
  from s obtain d y where d: "key r = Inr d" and y: "r ''Attrition'' = Some y"
    and s': "s = (counter_inc t0 d, if y = ''Yes'' then counter_inc a0 d else a0)"
    by (auto simp: ebind_eq_Inr getitem_eq_Inr)
  note IH = Cons.IH [OF f [unfolded s']]
  show ?case
  proof (intro conjI allI)
    fix x show "counter_get t x = counter_get t0 x + int (length (filter (\<lambda>r. key r = Inr x) (r # rows)))"
      using IH d by (auto simp: counter_get_inc)
  next
    fix x show "counter_get a x = counter_get a0 x + int (length (filter (\<lambda>r. key r = Inr x \<and> is_yes r) (r # rows)))"
      using IH d y by (auto simp: counter_get_inc is_yes_def)
  next
    show "set (counter_keys t) = set (counter_keys t0) \<union> {x. \<exists>r\<in>set (r # rows). key r = Inr x}"
      using IH d by (auto simp: set_keys_inc)
  next
    show "distinct (counter_keys t0) \<longrightarrow> distinct (counter_keys t)"
      using IH by (auto simp: distinct_keys_inc)
  next
    show "\<forall>r\<in>set (r # rows). (\<exists>x. key r = Inr x) \<and> r ''Attrition'' \<noteq> None"
      using IH d y by auto
  next
    show "t = [] \<longleftrightarrow> t0 = [] \<and> r # rows = []"
      using IH by simp
  qed
qed

lemma sum_counts_family:
  assumes "finite S" and uniq: "\<And>r x y. P x r \<Longrightarrow> P y r \<Longrightarrow> x = y"
  shows "(\<Sum>x\<in>S. int (length (filter (P x) rows))) = int (length (filter (\<lambda>r. \<exists>x\<in>S. P x r) rows))"
proof (induction rows)
  case Nil
  then show ?case by simp
next
  case (Cons r rows)
  show ?case
  proof (cases "\<exists>x\<in>S. P x r")
    case True
    then obtain k where k: "k \<in> S" "P k r" by auto
    have "(\<Sum>x\<in>S. int (length (filter (P x) (r # rows))))
        = (\<Sum>x\<in>S. (if x = k then 1 else 0) + int (length (filter (P x) rows)))"
      using k uniq by (intro sum.cong) auto
    also have "\<dots> = (\<Sum>x\<in>S. if x = k then 1 else 0) + (\<Sum>x\<in>S. int (length (filter (P x) rows)))"
      by (simp add: sum.distrib)
    also have "(\<Sum>x\<in>S. if x = k then 1 else (0::int)) = 1"
      using assms(1) k(1) by simp
    finally show ?thesis using Cons True by simp
  next
    case False
    then have "(\<Sum>x\<in>S. int (length (filter (P x) (r # rows)))) = (\<Sum>x\<in>S. int (length (filter (P x) rows)))"
      by (intro sum.cong) auto
    with Cons False show ?thesis by simp
  qed
qed

lemma sum_counts_partition:
  assumes "finite S" and "\<forall>r\<in>set rows. \<exists>x\<in>S. key r = Inr x"
  shows "(\<Sum>x\<in>S. int (length (filter (\<lambda>r. key r = Inr x) rows))) = int (length rows)"
proof -
  have "filter (\<lambda>r. \<exists>x\<in>S. key r = Inr x) rows = rows"
    using assms(2) by (simp add: filter_id_conv)
  with sum_counts_family [of S "\<lambda>x r. key r = Inr x" rows] assms(1) show ?thesis by simp
qed

lemma sum_list_sorted_keys:
  "distinct ks \<Longrightarrow> sum_list (map f (sort ks)) = sum f (set ks)"
  using sum_list_distinct_conv_sum_set [of "sort ks" f] by simp

lemma two_counters_sums:
  assumes loop: "efold (\<lambda>(t, a) r. ebind (key r) (\<lambda>d. ebind (getitem r ''Attrition'') (\<lambda>y.
       Inr (counter_inc t d, if y = ''Yes'' then counter_inc a d else a)))) rows ([], []) = Inr (t, a)"
  shows "sum_list (map (counter_get t) (sort (counter_keys t))) = int (length rows)"
    and "sum_list (map (counter_get a) (sort (counter_keys t))) = int (length (filter is_yes rows))"
    and "\<forall>l \<in> set (counter_keys t). 0 < counter_get t l \<and> 0 \<le> counter_get a l \<and> counter_get a l \<le> counter_get t l"
    and "distinct (counter_keys t)"
proof -
  note L = efold_two_counters [OF loop]
  from L have t: "\<And>x. counter_get t x = int (length (filter (\<lambda>r. key r = Inr x) rows))"
    and a: "\<And>x. counter_get a x = int (length (filter (\<lambda>r. key r = Inr x \<and> is_yes r) rows))"
    and keys: "set (counter_keys t) = {x. \<exists>r\<in>set rows. key r = Inr x}"
    and ok: "\<forall>r\<in>set rows. \<exists>x. key r = Inr x"
    by (simp_all add: counter_keys_def)
  from L show d: "distinct (counter_keys t)" by (simp add: counter_keys_def)
  have cover: "\<forall>r\<in>set rows. \<exists>x\<in>set (counter_keys t). key r = Inr x"
    using ok keys by fastforce
  show "sum_list (map (counter_get t) (sort (counter_keys t))) = int (length rows)"
    using sum_counts_partition [of "set (counter_keys t)" rows key] cover
    by (simp add: sum_list_sorted_keys [OF d] t)
  have cover': "\<forall>r\<in>set (filter is_yes rows). \<exists>x\<in>set (counter_keys t). key r = Inr x"
    using cover by auto
  have "\<And>x. filter (\<lambda>r. key r = Inr x \<and> is_yes r) rows = filter (\<lambda>r. key r = Inr x) (filter is_yes rows)"
    by (simp add: conj_commute)
  then show "sum_list (map (counter_get a) (sort (counter_keys t))) = int (length (filter is_yes rows))"
    using sum_counts_partition [of "set (counter_keys t)" "filter is_yes rows" key] cover'
    by (simp add: sum_list_sorted_keys [OF d] a)
  show "\<forall>l \<in> set (counter_keys t). 0 < counter_get t l \<and> 0 \<le> counter_get a l \<and> counter_get a l \<le> counter_get t l"
  proof
    fix l assume "l \<in> set (counter_keys t)"
    then obtain r where "r \<in> set rows" "key r = Inr l" using keys by auto
    then have "filter (\<lambda>r. key r = Inr l) rows \<noteq> []" by (auto simp: filter_empty_conv)
    then have "0 < counter_get t l" by (simp add: t)
    moreover have "length (filter (\<lambda>r. key r = Inr l \<and> is_yes r) rows) \<le> length (filter (\<lambda>r. key r = Inr l) rows)"
      by (induction rows) auto
    ultimately show "0 < counter_get t l \<and> 0 \<le> counter_get a l \<and> counter_get a l \<le> counter_get t l"
      by (simp add: t a)
  qed
qed

lemma emap_eq_Inr:
  "emap g xs = Inr ys \<Longrightarrow> length ys = length xs \<and> (\<forall>i<length xs. g (xs ! i) = Inr (ys ! i))"
proof (induction xs arbitrary: ys)
  case Nil
  then show ?case by simp
next
  case (Cons x xs)
  from Cons.prems obtain y ys' where y: "g x = Inr y" and r: "emap g xs = Inr ys'" and ys: "ys = y # ys'"
    by (auto split: sum.splits)
  from Cons.IH [OF r] y ys show ?case by (auto simp: nth_Cons split: nat.splits)
qed

lemma emap_total: "\<forall>x\<in>set xs. g x = Inr (h x) \<Longrightarrow> emap g xs = Inr (map h xs)"
  by (induction xs) simp_all

lemma rate_of_eq_Inr:
  "rate_of a t = Inr v \<Longrightarrow>
     v = (if t = 0 then PInt 0 else PFloat (RoundTo (Times (TrueDiv a t) 100) 1))"
  by (auto simp: rate_of_def truediv_def ebind_eq_Inr split: if_splits)

lemma rate_of_count:
  "0 \<le> a \<Longrightarrow> a \<le> t \<Longrightarrow>
     rate_of a t = Inr (if t = 0 then PInt 0 else PFloat (RoundTo (Times (TrueDiv a t) 100) 1))"
  by (simp add: rate_of_def truediv_count)

lemma dept_result:
  assumes "attrition_by_department csv g j e d = Inr res"
  obtains rows t a where "load_data csv g j e d = Inr rows"
    and "efold (\<lambda>(t, a) r. ebind (getitem r ''Department'') (\<lambda>d. ebind (getitem r ''Attrition'') (\<lambda>y.
       Inr (counter_inc t d, if y = ''Yes'' then counter_inc a d else a)))) rows ([], []) = Inr (t, a)"
    and "r_labels res = sort (counter_keys t)"
    and "r_total res = map (counter_get t) (sort (counter_keys t))"
    and "r_attrition res = map (counter_get a) (sort (counter_keys t))"
    and "emap (\<lambda>l. rate_of (counter_get a l) (counter_get t l)) (sort (counter_keys t)) = Inr (r_rate res)"
  using assms unfolding attrition_by_department_def
  by (auto simp: ebind_eq_Inr Let_def split: prod.splits)

lemma efold_counter_of:
  "efold (\<lambda>c r. ebind (getitem r k) (\<lambda>v. Inr (counter_inc c v))) rows c0 = Inr c
   \<Longrightarrow> (\<forall>x. counter_get c x = counter_get c0 x + int (length (filter (\<lambda>r. getitem r k = Inr x) rows)))
     \<and> set (counter_keys c) = set (counter_keys c0) \<union> {x. \<exists>r\<in>set rows. getitem r k = Inr x}
     \<and> (distinct (counter_keys c0) \<longrightarrow> distinct (counter_keys c))
     \<and> (\<forall>r\<in>set rows. \<exists>x. getitem r k = Inr x)"
proof (induction rows arbitrary: c0)
  case Nil
  then show ?case by simp
next
  case (Cons r rows)
  let ?f = "\<lambda>c r. ebind (getitem r k) (\<lambda>v. Inr (counter_inc c v))"
  from Cons.prems obtain s where s: "?f c0 r = Inr s" and f: "efold ?f rows s = Inr c"
    by (auto split: sum.splits)
  from s obtain v where v: "getitem r k = Inr v" and s': "s = counter_inc c0 v"
    by (auto simp: ebind_eq_Inr)
  note IH = Cons.IH [OF f [unfolded s']]
  show ?case
  proof (intro conjI allI)
    fix x show "counter_get c x = counter_get c0 x + int (length (filter (\<lambda>r. getitem r k = Inr x) (r # rows)))"
      using IH v by (auto simp: counter_get_inc)
  next
    show "set (counter_keys c) = set (counter_keys c0) \<union> {x. \<exists>r\<in>set (r # rows). getitem r k = Inr x}"
      using IH v by (auto simp: set_keys_inc)
  next
    show "distinct (counter_keys c0) \<longrightarrow> distinct (counter_keys c)"
      using IH by (auto simp: distinct_keys_inc)
  next
    show "\<forall>r\<in>set (r # rows). \<exists>x. getitem r k = Inr x"
      using IH v by auto
  qed
qed

lemma efold_counter_of_yes:
  "efold (\<lambda>c r. ebind (getitem r ''Attrition'') (\<lambda>a.
              if a = ''Yes'' then ebind (getitem r k) (\<lambda>v. Inr (counter_inc c v))
              else Inr c)) rows c0 = Inr c
   \<Longrightarrow> (\<forall>x. counter_get c x = counter_get c0 x + int (length (filter (\<lambda>r. getitem r k = Inr x \<and> is_yes r) rows)))"
proof (induction rows arbitrary: c0)
  case Nil
  then show ?case by simp
next
  case (Cons r rows)
  let ?f = "\<lambda>c r. ebind (getitem r ''Attrition'') (\<lambda>a.
              if a = ''Yes'' then ebind (getitem r k) (\<lambda>v. Inr (counter_inc c v))
              else Inr c)"
  from Cons.prems obtain s where s: "?f c0 r = Inr s" and f: "efold ?f rows s = Inr c"
    by (auto split: sum.splits)
  from s obtain y where y: "r ''Attrition'' = Some y" by (auto simp: ebind_eq_Inr getitem_eq_Inr)
  show ?case
  proof (cases "y = ''Yes''")
    case True
    with s y obtain v where v: "getitem r k = Inr v" and s': "s = counter_inc c0 v"
      by (auto simp: ebind_eq_Inr)
    from Cons.IH [OF f [unfolded s']] v y True show ?thesis
      by (auto simp: counter_get_inc is_yes_def)
  next
    case False
    with s y have s': "s = c0" by simp
    from Cons.IH [OF f [unfolded s']] y False show ?thesis
      by (auto simp: is_yes_def)
  qed
qed

lemma counters_sums:
  assumes c: "counter_of rows k = Inr c" and a: "counter_of_yes rows k = Inr a"
  shows "sum_list (map (counter_get c) (sort (counter_keys c))) = int (length rows)"
    and "sum_list (map (counter_get a) (sort (counter_keys c))) = int (length (filter is_yes rows))"
proof -
  note C = efold_counter_of [OF c [unfolded counter_of_def]]
  note A = efold_counter_of_yes [OF a [unfolded counter_of_yes_def]]
  from C have t: "\<And>x. counter_get c x = int (length (filter (\<lambda>r. getitem r k = Inr x) rows))"
    and keys: "set (counter_keys c) = {x. \<exists>r\<in>set rows. getitem r k = Inr x}"
    and ok: "\<forall>r\<in>set rows. \<exists>x. getitem r k = Inr x"
    and d: "distinct (counter_keys c)"
    by (simp_all add: counter_keys_def)
  from A have ay: "\<And>x. counter_get a x = int (length (filter (\<lambda>r. getitem r k = Inr x \<and> is_yes r) rows))"
    by simp
  have cover: "\<forall>r\<in>set rows. \<exists>x\<in>set (counter_keys c). getitem r k = Inr x"
    using ok keys by fastforce
  show "sum_list (map (counter_get c) (sort (counter_keys c))) = int (length rows)"
    using sum_counts_partition [of "set (counter_keys c)" rows "\<lambda>r. getitem r k"] cover
    by (simp add: sum_list_sorted_keys [OF d] t)
  have cover': "\<forall>r\<in>set (filter is_yes rows). \<exists>x\<in>set (counter_keys c). getitem r k = Inr x"
    using cover by auto
  have "\<And>x. filter (\<lambda>r. getitem r k = Inr x \<and> is_yes r) rows = filter (\<lambda>r. getitem r k = Inr x) (filter is_yes rows)"
    by (simp add: conj_commute)
  then show "sum_list (map (counter_get a) (sort (counter_keys c))) = int (length (filter is_yes rows))"
    using sum_counts_partition [of "set (counter_keys c)" "filter is_yes rows" "\<lambda>r. getitem r k"] cover'
    by (simp add: sum_list_sorted_keys [OF d] ay)
qed

lemma bins_eq: "bins = [18, 23, 28, 33, 38, 43, 48, 53, 58, 63]"
  by code_simp

lemma length_bins [simp]: "length bins = 10"
  by (simp add: bins_eq)

lemma list_inc_in_range:
  "0 \<le> i \<Longrightarrow> i < int (length xs) \<Longrightarrow> list_inc xs i = Inr (xs[nat i := xs ! nat i + 1])"
  by (simp add: list_inc_def Let_def)

lemma age_idx:
  "a < 18 \<Longrightarrow> min ((a - 18) div 5) 9 < 0"
  "63 \<le> a \<Longrightarrow> min ((a - 18) div 5) 9 = 9"
  "18 \<le> a \<Longrightarrow> a < 63 \<Longrightarrow> min ((a - 18) div 5) 9 = int (nat ((a - 18) div 5))"
  "18 \<le> a \<Longrightarrow> a < 63 \<Longrightarrow> nat ((a - 18) div 5) < 9"
  by arith+

lemma age_bin_idx:
  "age_bin a = None \<Longrightarrow> min ((a - 18) div 5) 9 < 0"
  "age_bin a = Some k \<Longrightarrow> min ((a - 18) div 5) 9 = int k \<and> k < 10"
  using age_idx [of a] by (auto simp: age_bin_def split: if_splits)

lemma age_step_alt:
  assumes a: "int_field r ''Age'' = Inr a"
  shows "age_step (tc, ac) r =
     (case age_bin a of None \<Rightarrow> Inr (tc, ac)
      | Some k \<Rightarrow>
          ebind (list_inc tc (int k)) (\<lambda>tc'.
          ebind (getitem r ''Attrition'') (\<lambda>y.
          if y = ''Yes'' then ebind (list_inc ac (int k)) (\<lambda>ac'. Inr (tc', ac'))
          else Inr (tc', ac))))"
proof (cases "age_bin a")
  case None
  from age_bin_idx(1) [OF None] have "\<not> (0 \<le> min ((a - 18) div 5) (int (length bins) - 1)
      \<and> min ((a - 18) div 5) (int (length bins) - 1) < int (length bins))"
    by simp
  then show ?thesis
    unfolding age_step_def by (simp only: a None Let_def ebind_Inr if_False option.case prod.case simp_thms)
next
  case (Some k)
  from age_bin_idx(2) [OF Some] have i: "min ((a - 18) div 5) (int (length bins) - 1) = int k"
    and "0 \<le> min ((a - 18) div 5) (int (length bins) - 1)
      \<and> min ((a - 18) div 5) (int (length bins) - 1) < int (length bins)"
    by simp_all
  then show ?thesis
    unfolding age_step_def by (simp only: a Some Let_def ebind_Inr if_True option.case prod.case simp_thms)
qed

lemma age_step_eq_Inr:
  assumes s: "age_step (tc, ac) r = Inr (tc', ac')" and ltc: "length tc = 10" and lac: "length ac = 10"
  shows "\<exists>a. int_field r ''Age'' = Inr a"
    and "length tc' = 10" and "length ac' = 10"
    and "\<forall>i<10. tc' ! i = tc ! i + (if age_bin_of r = Some i then 1 else 0)"
    and "\<forall>i<10. ac' ! i = ac ! i + (if age_bin_of r = Some i \<and> is_yes r then 1 else 0)"
proof -
  from s obtain a where a: "int_field r ''Age'' = Inr a"
    by (auto simp: age_step_def ebind_eq_Inr)
  then show "\<exists>a. int_field r ''Age'' = Inr a" by blast
  have b: "age_bin_of r = age_bin a" using a by (simp add: age_bin_of_def)
  have "length tc' = 10 \<and> length ac' = 10 \<and>
      (\<forall>i<10. tc' ! i = tc ! i + (if age_bin_of r = Some i then 1 else 0)) \<and>
      (\<forall>i<10. ac' ! i = ac ! i + (if age_bin_of r = Some i \<and> is_yes r then 1 else 0))"
  proof (cases "age_bin a")
    case None
    with s ltc lac b show ?thesis by (simp add: age_step_alt [OF a])
  next
    case (Some k)
    then have k: "k < 10" using age_bin_idx(2) by blast
    have li: "\<And>xs. length xs = 10 \<Longrightarrow> list_inc xs (int k) = Inr (xs[k := xs ! k + 1])"
      using k by (simp add: list_inc_in_range)
    from s obtain y where y: "r ''Attrition'' = Some y"
      by (auto simp: age_step_alt [OF a] Some li [OF ltc] ebind_eq_Inr getitem_eq_Inr)
    from s y have res: "tc' = tc[k := tc ! k + 1]"
      "ac' = (if y = ''Yes'' then ac[k := ac ! k + 1] else ac)"
      by (auto simp: age_step_alt [OF a] Some li [OF ltc] li [OF lac] split: if_splits)
    show ?thesis
      using res ltc lac b Some k y by (auto simp: nth_list_update is_yes_def)
  qed
  then show "length tc' = 10" "length ac' = 10"
    "\<forall>i<10. tc' ! i = tc ! i + (if age_bin_of r = Some i then 1 else 0)"
    "\<forall>i<10. ac' ! i = ac ! i + (if age_bin_of r = Some i \<and> is_yes r then 1 else 0)"
    by blast+
qed

lemma efold_age_step:
  "efold age_step rows (tc0, ac0) = Inr (tc, ac) \<Longrightarrow> length tc0 = 10 \<Longrightarrow> length ac0 = 10 \<Longrightarrow>
     length tc = 10 \<and> length ac = 10
     \<and> (\<forall>i<10. tc ! i = tc0 ! i + int (length (filter (\<lambda>r. age_bin_of r = Some i) rows)))
     \<and> (\<forall>i<10. ac ! i = ac0 ! i + int (length (filter (\<lambda>r. age_bin_of r = Some i \<and> is_yes r) rows)))
     \<and> (\<forall>r\<in>set rows. \<exists>a. int_field r ''Age'' = Inr a)"
proof (induction rows arbitrary: tc0 ac0)
  case Nil
  then show ?case by simp
next
  case (Cons r rows)
  from Cons.prems(1) obtain tc1 ac1 where s: "age_step (tc0, ac0) r = Inr (tc1, ac1)"
    and f: "efold age_step rows (tc1, ac1) = Inr (tc, ac)"
    by (auto split: sum.splits)
  note S = age_step_eq_Inr [OF s Cons.prems(2,3)]
  note IH = Cons.IH [OF f S(2,3)]
  show ?case using IH S(1,4,5) by auto
qed

subsection \<open>Sums of the category views\<close>

lemma jobrole_result:
  assumes "attrition_by_jobrole csv g j e d = Inr res"
  obtains rows t a where "load_data csv g j e d = Inr rows"
    and "efold (\<lambda>(t, a) r. ebind (getitem r ''JobRole'') (\<lambda>d. ebind (getitem r ''Attrition'') (\<lambda>y.
       Inr (counter_inc t d, if y = ''Yes'' then counter_inc a d else a)))) rows ([], []) = Inr (t, a)"
    and "r_labels res = sort (counter_keys t)"
    and "r_total res = map (counter_get t) (sort (counter_keys t))"
    and "r_attrition res = map (counter_get a) (sort (counter_keys t))"
    and "emap (\<lambda>l. rate_of (counter_get a l) (counter_get t l)) (sort (counter_keys t)) = Inr (r_rate res)"
  using assms unfolding attrition_by_jobrole_def
  by (auto simp: ebind_eq_Inr Let_def split: prod.splits)

lemma gender_result:
  assumes "gender_split csv g j e d = Inr res"
  obtains rows c a where "load_data csv g j e d = Inr rows"
    and "counter_of rows ''Gender'' = Inr c" and "counter_of_yes rows ''Gender'' = Inr a"
    and "c_labels res = sort (counter_keys c)"
    and "c_total res = map (counter_get c) (sort (counter_keys c))"
    and "c_attrition res = map (counter_get a) (sort (counter_keys c))"
  using assms unfolding gender_split_def
  by (auto simp: ebind_eq_Inr Let_def)

lemma education_field_result:
  assumes "education_field csv g j e d = Inr res"
  obtains rows c a where "load_data csv g j e d = Inr rows"
    and "counter_of rows ''EducationField'' = Inr c"
    and "counter_of_yes rows ''EducationField'' = Inr a"
    and "c_labels res = sort (counter_keys c)"
    and "c_total res = map (counter_get c) (sort (counter_keys c))"
    and "c_attrition res = map (counter_get a) (sort (counter_keys c))"
  using assms unfolding education_field_def
  by (auto simp: ebind_eq_Inr Let_def)

lemma age_labels:
  "map (\<lambda>b. py_str b @ ''-'' @ py_str (b + 4)) bins =
     [''18-22'', ''23-27'', ''28-32'', ''33-37'', ''38-42'', ''43-47'', ''48-52'', ''53-57'',
      ''58-62'', ''63-67'']"
  by code_simp

lemma age_result:
  assumes "age_distribution csv g j e d = Inr res"
  obtains rows where "load_data csv g j e d = Inr rows"
    and "efold age_step rows (replicate 10 0, replicate 10 0) = Inr (c_total res, c_attrition res)"
    and "c_labels res = map (\<lambda>b. py_str b @ ''-'' @ py_str (b + 4)) bins"
  using assms unfolding age_distribution_def
  by (auto simp: ebind_eq_Inr Let_def split: prod.splits)

lemma years_result:
  assumes "years_attrition csv g j e d = Inr res"
  obtains rows t a where "load_data csv g j e d = Inr rows"
    and "efold (\<lambda>(t, a) r. ebind (int_field r ''YearsAtCompany'') (\<lambda>d. ebind (getitem r ''Attrition'') (\<lambda>y.
       Inr (counter_inc t d, if y = ''Yes'' then counter_inc a d else a)))) rows ([], []) = Inr (t, a)"
    and "y_labels res = range0 (min ((if t \<noteq> [] then Max (set (counter_keys t)) else 0) + 1) 41)"
    and "y_total res = map (counter_get t) (y_labels res)"
    and "emap (\<lambda>y. rate_of (counter_get a y) (counter_get t y)) (y_labels res) = Inr (y_attrition_rate res)"
  using assms unfolding years_attrition_def years_step_def
  by (auto simp: ebind_eq_Inr Let_def split: prod.splits)

lemma age_sums:
  assumes "efold age_step rows (replicate 10 0, replicate 10 0) = Inr (tc, ac)"
  shows "sum_list tc = int (length (filter aged_18_up rows))"
    and "sum_list ac = int (length (filter (\<lambda>r. aged_18_up r \<and> is_yes r) rows))"
proof -
  from efold_age_step [OF assms] have len: "length tc = 10" "length ac = 10"
    and tc: "\<And>i. i < 10 \<Longrightarrow> tc ! i = int (length (filter (\<lambda>r. age_bin_of r = Some i) rows))"
    and ac: "\<And>i. i < 10 \<Longrightarrow> ac ! i = int (length (filter (\<lambda>r. age_bin_of r = Some i \<and> is_yes r) rows))"
    by simp_all
  have bin: "\<And>r. (\<exists>i\<in>{..<10}. age_bin_of r = Some i) = aged_18_up r"
    by (auto simp: age_bin_of_def aged_18_up_def age_bin_def split: sum.splits)
  have "sum_list tc = (\<Sum>i<10. tc ! i)"
    using len by (simp add: sum_list_sum_nth atLeast0LessThan)
  also have "\<dots> = (\<Sum>i<10. int (length (filter (\<lambda>r. age_bin_of r = Some i) rows)))"
    by (intro sum.cong) (simp_all add: tc)
  also have "\<dots> = int (length (filter (\<lambda>r. \<exists>i\<in>{..<10}. age_bin_of r = Some i) rows))"
    by (intro sum_counts_family) simp_all
  finally show "sum_list tc = int (length (filter aged_18_up rows))"
    by (simp add: bin)
  have "sum_list ac = (\<Sum>i<10. ac ! i)"
    using len by (simp add: sum_list_sum_nth atLeast0LessThan)
  also have "\<dots> = (\<Sum>i<10. int (length (filter (\<lambda>r. age_bin_of r = Some i \<and> is_yes r) rows)))"
    by (intro sum.cong) (simp_all add: ac)
  also have "\<dots> = int (length (filter (\<lambda>r. \<exists>i\<in>{..<10}. age_bin_of r = Some i \<and> is_yes r) rows))"
    by (intro sum_counts_family) simp_all
  also have "(\<lambda>r. \<exists>i\<in>{..<10}. age_bin_of r = Some i \<and> is_yes r) = (\<lambda>r. aged_18_up r \<and> is_yes r)"
    using bin by auto
  finally show "sum_list ac = int (length (filter (\<lambda>r. aged_18_up r \<and> is_yes r) rows))" .
qed

lemma years_labels:
  assumes loop: "efold (\<lambda>(t, a) r. ebind (int_field r ''YearsAtCompany'') (\<lambda>d. ebind (getitem r ''Attrition'') (\<lambda>y.
       Inr (counter_inc t d, if y = ''Yes'' then counter_inc a d else a)))) rows ([], []) = Inr (t, a)"
  shows "(if t \<noteq> [] then Max (set (counter_keys t)) else 0) = max_years_seen rows"
    and "set (counter_keys t) = set (years_seen rows)"
proof -
  note L = efold_two_counters [OF loop]
  from L have keys: "set (counter_keys t) = {x. \<exists>r\<in>set rows. int_field r ''YearsAtCompany'' = Inr x}"
    and ok: "\<forall>r\<in>set rows. \<exists>x. int_field r ''YearsAtCompany'' = Inr x"
    and e: "t = [] \<longleftrightarrow> rows = []"
    by (simp_all add: counter_keys_def)
  have "set (years_seen rows) = {x. \<exists>r\<in>set rows. int_field r ''YearsAtCompany'' = Inr x}"
    by (auto simp: years_seen_def split: sum.splits)
  with keys show k: "set (counter_keys t) = set (years_seen rows)" by simp
  have "years_seen rows = [] \<longleftrightarrow> rows = []"
    using ok by (cases rows) (auto simp: years_seen_def split: sum.splits)
  with e k show "(if t \<noteq> [] then Max (set (counter_keys t)) else 0) = max_years_seen rows"
    by (simp add: max_years_seen_def)
qed

lemma range0_eq: "range0 (min (m + 1) 41) = [0 .. min m 40]"
  by (simp add: range0_def min_def)

lemma years_sums:
  assumes loop: "efold (\<lambda>(t, a) r. ebind (int_field r ''YearsAtCompany'') (\<lambda>d. ebind (getitem r ''Attrition'') (\<lambda>y.
       Inr (counter_inc t d, if y = ''Yes'' then counter_inc a d else a)))) rows ([], []) = Inr (t, a)"
  shows "sum_list (map (counter_get t) [0 .. min (max_years_seen rows) 40])
           = int (length (filter years_in_range rows))"
proof -
  note L = efold_two_counters [OF loop]
  from L have t: "\<And>x. counter_get t x = int (length (filter (\<lambda>r. int_field r ''YearsAtCompany'' = Inr x) rows))"
    by simp
  let ?m = "min (max_years_seen rows) 40"
  have le: "\<And>r y. r \<in> set rows \<Longrightarrow> int_field r ''YearsAtCompany'' = Inr y \<Longrightarrow> y \<le> max_years_seen rows"
  proof -
    fix r y assume "r \<in> set rows" "int_field r ''YearsAtCompany'' = Inr y"
    then have "y \<in> set (years_seen rows)" by (force simp: years_seen_def)
    then show "y \<le> max_years_seen rows"
      by (auto simp: max_years_seen_def)
  qed
  have "sum_list (map (counter_get t) [0 .. ?m]) = sum (counter_get t) {0 .. ?m}"
    using sum_list_distinct_conv_sum_set [of "[0 .. ?m]" "counter_get t"] by simp
  also have "\<dots> = (\<Sum>x\<in>{0 .. ?m}. int (length (filter (\<lambda>r. int_field r ''YearsAtCompany'' = Inr x) rows)))"
    by (simp add: t)
  also have "\<dots> = int (length (filter (\<lambda>r. \<exists>x\<in>{0 .. ?m}. int_field r ''YearsAtCompany'' = Inr x) rows))"
    by (intro sum_counts_family) simp_all
  also have "filter (\<lambda>r. \<exists>x\<in>{0 .. ?m}. int_field r ''YearsAtCompany'' = Inr x) rows = filter years_in_range rows"
  proof (rule filter_cong [OF refl])
    fix r assume r: "r \<in> set rows"
    show "(\<exists>x\<in>{0 .. ?m}. int_field r ''YearsAtCompany'' = Inr x) = years_in_range r"
      using le [OF r] by (auto simp: years_in_range_def split: sum.splits)
  qed
  finally show ?thesis .
qed

lemma dept_sums:
  assumes "load_data csv g j e d = Inr rows" and "attrition_by_department csv g j e d = Inr res"
  shows "sum_list (r_total res) = int (length rows) \<and>
         sum_list (r_attrition res) = int (length (filter is_yes rows))"
  using assms(2)
proof (rule dept_result)
  fix rows' t a
  assume "load_data csv g j e d = Inr rows'"
    and loop: "efold (\<lambda>(t, a) r. ebind (getitem r ''Department'') (\<lambda>d. ebind (getitem r ''Attrition'') (\<lambda>y.
       Inr (counter_inc t d, if y = ''Yes'' then counter_inc a d else a)))) rows' ([], []) = Inr (t, a)"
    and res: "r_total res = map (counter_get t) (sort (counter_keys t))"
      "r_attrition res = map (counter_get a) (sort (counter_keys t))"
  with assms(1) have "rows' = rows" by simp
  with two_counters_sums(1,2) [OF loop] res show ?thesis by simp
qed

lemma jobrole_sums:
  assumes "load_data csv g j e d = Inr rows" and "attrition_by_jobrole csv g j e d = Inr res"
  shows "sum_list (r_total res) = int (length rows) \<and>
         sum_list (r_attrition res) = int (length (filter is_yes rows))"
  using assms(2)
proof (rule jobrole_result)
  fix rows' t a
  assume "load_data csv g j e d = Inr rows'"
    and loop: "efold (\<lambda>(t, a) r. ebind (getitem r ''JobRole'') (\<lambda>d. ebind (getitem r ''Attrition'') (\<lambda>y.
       Inr (counter_inc t d, if y = ''Yes'' then counter_inc a d else a)))) rows' ([], []) = Inr (t, a)"
    and res: "r_total res = map (counter_get t) (sort (counter_keys t))"
      "r_attrition res = map (counter_get a) (sort (counter_keys t))"
  with assms(1) have "rows' = rows" by simp
  with two_counters_sums(1,2) [OF loop] res show ?thesis by simp
qed

lemma gender_sums:
  assumes "load_data csv g j e d = Inr rows" and "gender_split csv g j e d = Inr res"
  shows "sum_list (c_total res) = int (length rows) \<and>
         sum_list (c_attrition res) = int (length (filter is_yes rows))"
  using assms(2)
proof (rule gender_result)
  fix rows' c a
  assume "load_data csv g j e d = Inr rows'"
    and c: "counter_of rows' ''Gender'' = Inr c" and a: "counter_of_yes rows' ''Gender'' = Inr a"
    and res: "c_total res = map (counter_get c) (sort (counter_keys c))"
      "c_attrition res = map (counter_get a) (sort (counter_keys c))"
  with assms(1) have "rows' = rows" by simp
  with counters_sums [OF c a] res show ?thesis by simp
qed

lemma education_field_sums:
  assumes "load_data csv g j e d = Inr rows" and "education_field csv g j e d = Inr res"
  shows "sum_list (c_total res) = int (length rows) \<and>
         sum_list (c_attrition res) = int (length (filter is_yes rows))"
  using assms(2)
proof (rule education_field_result)
  fix rows' c a
  assume "load_data csv g j e d = Inr rows'"
    and c: "counter_of rows' ''EducationField'' = Inr c"
    and a: "counter_of_yes rows' ''EducationField'' = Inr a"
    and res: "c_total res = map (counter_get c) (sort (counter_keys c))"
      "c_attrition res = map (counter_get a) (sort (counter_keys c))"
  with assms(1) have "rows' = rows" by simp
  with counters_sums [OF c a] res show ?thesis by simp
qed

lemma age_view_sums:
  assumes "load_data csv g j e d = Inr rows" and "age_distribution csv g j e d = Inr res"
  shows "sum_list (c_total res) = int (length (filter aged_18_up rows)) \<and>
         sum_list (c_attrition res) = int (length (filter (\<lambda>r. aged_18_up r \<and> is_yes r) rows))"
  using assms(2)
proof (rule age_result)
  fix rows'
  assume "load_data csv g j e d = Inr rows'"
    and loop: "efold age_step rows' (replicate 10 0, replicate 10 0) = Inr (c_total res, c_attrition res)"
  with assms(1) have "rows' = rows" by simp
  with age_sums [OF loop] show ?thesis by simp
qed

lemma years_view_sums:
  assumes "load_data csv g j e d = Inr rows" and "years_attrition csv g j e d = Inr res"
  shows "y_labels res = [0 .. min (max_years_seen rows) 40] \<and>
         sum_list (y_total res) = int (length (filter years_in_range rows))"
  using assms(2)
proof (rule years_result)
  fix rows' t a
  assume "load_data csv g j e d = Inr rows'"
    and loop: "efold (\<lambda>(t, a) r. ebind (int_field r ''YearsAtCompany'') (\<lambda>d. ebind (getitem r ''Attrition'') (\<lambda>y.
       Inr (counter_inc t d, if y = ''Yes'' then counter_inc a d else a)))) rows' ([], []) = Inr (t, a)"
    and lab: "y_labels res = range0 (min ((if t \<noteq> [] then Max (set (counter_keys t)) else 0) + 1) 41)"
    and tot: "y_total res = map (counter_get t) (y_labels res)"
  with assms(1) have r: "rows' = rows" by simp
  from lab have l: "y_labels res = [0 .. min (max_years_seen rows') 40]"
    by (simp only: years_labels(1) [OF loop] range0_eq)
  with years_sums [OF loop] tot r show ?thesis by simp
qed

text \<open>
  C1 (amended). Let \<open>rows\<close> be the filtered set. In the views by department, job role,
  gender and education field, of either file, the \<^verbatim>\<open>total\<close> series sums to the number of
  rows and the \<^verbatim>\<open>attrition\<close> series to the number of rows with \<^verbatim>\<open>Attrition = "Yes"\<close>. In the
  age distribution the two series sum to the same counts taken over the rows aged 18 or
  more only. In the years-at-company view the \<^verbatim>\<open>total\<close> series sums to the number of rows
  whose years are between 0 and 40, and the view has no \<^verbatim>\<open>attrition\<close> series.
\<close>

theorem category_totals_add_up:
  assumes "load_data csv g j e d = Inr rows"
    and "p = \<lparr>p_gender = g, p_job_role = j, p_education = e, p_department = d\<rparr>"
  shows
   "(\<forall>res. attrition_by_department csv g j e d = Inr res \<or> api_attrition_dept csv p = Inr res \<longrightarrow>
       sum_list (r_total res) = int (length rows) \<and>
       sum_list (r_attrition res) = int (length (filter is_yes rows))) \<and>
    (\<forall>res. attrition_by_jobrole csv g j e d = Inr res \<or> api_attrition_jobrole csv p = Inr res \<longrightarrow>
       sum_list (r_total res) = int (length rows) \<and>
       sum_list (r_attrition res) = int (length (filter is_yes rows))) \<and>
    (\<forall>res. gender_split csv g j e d = Inr res \<or> api_gender_split csv p = Inr res \<longrightarrow>
       sum_list (c_total res) = int (length rows) \<and>
       sum_list (c_attrition res) = int (length (filter is_yes rows))) \<and>
    (\<forall>res. education_field csv g j e d = Inr res \<or> api_edu_field csv p = Inr res \<longrightarrow>
       sum_list (c_total res) = int (length rows) \<and>
       sum_list (c_attrition res) = int (length (filter is_yes rows))) \<and>
    (\<forall>res. age_distribution csv g j e d = Inr res \<or> api_age_dist csv p = Inr res \<longrightarrow>
       sum_list (c_total res) = int (length (filter aged_18_up rows)) \<and>
       sum_list (c_attrition res) = int (length (filter (\<lambda>r. aged_18_up r \<and> is_yes r) rows))) \<and>
    (\<forall>res. years_attrition csv g j e d = Inr res \<or> api_years_attrition csv p = Inr res \<longrightarrow>
       sum_list (y_total res) = int (length (filter years_in_range rows)))"
  using dept_sums [OF assms(1)] jobrole_sums [OF assms(1)] gender_sums [OF assms(1)]
    education_field_sums [OF assms(1)] age_view_sums [OF assms(1)] years_view_sums [OF assms(1)]
  by (simp add: assms(2) api_attrition_dept_eq api_attrition_jobrole_eq api_gender_split_eq
      api_edu_field_eq api_age_dist_eq api_years_attrition_eq)

lemma sample_loaded: "load_data sample_rows None None None None = Inr sample_rows"
  by (simp add: load_data_def load_step_def skips_def truthy_def sample_rows_def)

lemma sample_department:
  "attrition_by_department sample_rows None None None None =
     Inr \<lparr>r_labels = [''A'', ''B''], r_total = [2, 1], r_attrition = [1, 0],
          r_rate = [PFloat (RoundTo (Times (TrueDiv 1 2) 100) 1),
                    PFloat (RoundTo (Times (TrueDiv 0 1) 100) 1)]\<rparr>"
  by code_simp

lemma sample_jobrole:
  "attrition_by_jobrole sample_rows None None None None =
     Inr \<lparr>r_labels = [''Clerk'', ''Manager''], r_total = [1, 2], r_attrition = [0, 1],
          r_rate = [PFloat (RoundTo (Times (TrueDiv 0 1) 100) 1),
                    PFloat (RoundTo (Times (TrueDiv 1 2) 100) 1)]\<rparr>"
  by code_simp

lemma sample_gender:
  "gender_split sample_rows None None None None =
     Inr \<lparr>c_labels = [''Female'', ''Male''], c_total = [1, 2], c_attrition = [1, 0]\<rparr>"
  by code_simp

lemma sample_education_field:
  "education_field sample_rows None None None None =
     Inr \<lparr>c_labels = [''Medical'', ''Other''], c_total = [2, 1], c_attrition = [1, 0]\<rparr>"
  by code_simp

lemma sample_age:
  "age_distribution sample_rows None None None None =
     Inr \<lparr>c_labels = [''18-22'', ''23-27'', ''28-32'', ''33-37'', ''38-42'', ''43-47'',
            ''48-52'', ''53-57'', ''58-62'', ''63-67''],
          c_total = [0, 0, 1, 0, 0, 0, 0, 0, 1, 0],
          c_attrition = [0, 0, 0, 0, 0, 0, 0, 0, 0, 0]\<rparr>"
  by code_simp

lemma sample_years:
  "years_attrition sample_rows None None None None =
     Inr \<lparr>y_labels = [0 .. 40],
          y_attrition_rate = PFloat (RoundTo (Times (TrueDiv 0 1) 100) 1) # PInt 0 #
            PFloat (RoundTo (Times (TrueDiv 0 1) 100) 1) # replicate 38 (PInt 0),
          y_total = 1 # 0 # 1 # replicate 38 0\<rparr>"
  by code_simp

theorem category_totals_add_up_witness:
  "load_data sample_rows None None None None = Inr sample_rows \<and>
   (\<exists>res. attrition_by_department sample_rows None None None None = Inr res \<and>
      sum_list (r_total res) = 3 \<and> sum_list (r_attrition res) = 1) \<and>
   (\<exists>res. attrition_by_jobrole sample_rows None None None None = Inr res \<and>
      sum_list (r_total res) = 3 \<and> sum_list (r_attrition res) = 1) \<and>
   (\<exists>res. gender_split sample_rows None None None None = Inr res \<and>
      sum_list (c_total res) = 3 \<and> sum_list (c_attrition res) = 1) \<and>
   (\<exists>res. education_field sample_rows None None None None = Inr res \<and>
      sum_list (c_total res) = 3 \<and> sum_list (c_attrition res) = 1) \<and>
   (\<exists>res. age_distribution sample_rows None None None None = Inr res \<and>
      sum_list (c_total res) = 2 \<and> sum_list (c_attrition res) = 0) \<and>
   (\<exists>res. years_attrition sample_rows None None None None = Inr res \<and>
      sum_list (y_total res) = 2)"
proof -
  have n: "int (length sample_rows) = 3" "int (length (filter is_yes sample_rows)) = 1"
    "int (length (filter aged_18_up sample_rows)) = 2"
    "int (length (filter (\<lambda>r. aged_18_up r \<and> is_yes r) sample_rows)) = 0"
    "int (length (filter years_in_range sample_rows)) = 2"
    by code_simp+
  from category_totals_add_up [OF sample_loaded refl] show ?thesis
    by (simp add: sample_loaded sample_department sample_jobrole sample_gender
        sample_education_field sample_age sample_years n sum_list_replicate)
qed

text \<open>
  As stated, C1 fails in the age distribution: one row aged 17 is in the filtered set and
  in no bin, so the totals sum to 0 and not to 1.
\<close>

theorem age_view_drops_minor_counterexample:
  "load_data [[''Age'' \<mapsto> ''17'', ''Attrition'' \<mapsto> ''No'']] None None None None =
     Inr [[''Age'' \<mapsto> ''17'', ''Attrition'' \<mapsto> ''No'']] \<and>
   age_distribution [[''Age'' \<mapsto> ''17'', ''Attrition'' \<mapsto> ''No'']] None None None None =
     Inr \<lparr>c_labels = [''18-22'', ''23-27'', ''28-32'', ''33-37'', ''38-42'', ''43-47'',
            ''48-52'', ''53-57'', ''58-62'', ''63-67''],
          c_total = [0, 0, 0, 0, 0, 0, 0, 0, 0, 0],
          c_attrition = [0, 0, 0, 0, 0, 0, 0, 0, 0, 0]\<rparr> \<and>
   sum_list [0, 0, 0, 0, 0, 0, 0, 0, 0, 0] \<noteq>
     int (length [[''Age'' \<mapsto> ''17'', ''Attrition'' \<mapsto> ''No'']])"
proof -
  have "load_data [[''Age'' \<mapsto> ''17'', ''Attrition'' \<mapsto> ''No'']] None None None None =
     Inr [[''Age'' \<mapsto> ''17'', ''Attrition'' \<mapsto> ''No'']]"
    by (simp add: load_data_def load_step_def skips_def truthy_def)
  moreover have "age_distribution [[''Age'' \<mapsto> ''17'', ''Attrition'' \<mapsto> ''No'']] None None None None =
     Inr \<lparr>c_labels = [''18-22'', ''23-27'', ''28-32'', ''33-37'', ''38-42'', ''43-47'',
            ''48-52'', ''53-57'', ''58-62'', ''63-67''],
          c_total = [0, 0, 0, 0, 0, 0, 0, 0, 0, 0],
          c_attrition = [0, 0, 0, 0, 0, 0, 0, 0, 0, 0]\<rparr>"
    by code_simp
  ultimately show ?thesis by simp
qed

end
